theory Spec2Isabelle
  imports Complex_Main "HOL-Library.Word" "HOL-Library.Log_Nat"
begin

section \<open>Data model of the mission engine (src/plugins/mission/mission_impl.cpp)\<close>

subsection \<open>Floating-point values\<close>

text \<open>
  A C++ \<^verbatim>\<open>float\<close> or \<^verbatim>\<open>double\<close> is either finite, an infinity or NaN. A finite value
  is represented by the rational number it denotes. Testing finiteness, comparing with
  zero, truncating to \<^verbatim>\<open>int\<close>, widening a \<^verbatim>\<open>float\<close> to a \<^verbatim>\<open>double\<close> and passing a value
  through are exact on the denoted number. The operations that round are modelled with
  the rounding of IEEE 754 (to nearest, ties to even): the two \<^verbatim>\<open>double\<close> products of
  the position conversions and the narrowing of a \<^verbatim>\<open>double\<close> to a \<^verbatim>\<open>float\<close>. The sign of
  zero is not modelled.
\<close>

datatype float = Finite rat | PosInf | NegInf | NaN

fun isfinite :: "float \<Rightarrow> bool" where
  "isfinite (Finite r) = True"
| "isfinite PosInf = False"
| "isfinite NegInf = False"
| "isfinite NaN = False"

text \<open>\<^verbatim>\<open>f > 0\<close> and \<^verbatim>\<open>f < 0\<close>: every comparison with NaN is false.\<close>

fun float_gt_zero :: "float \<Rightarrow> bool" where
  "float_gt_zero (Finite r) = (0 < r)"
| "float_gt_zero PosInf = True"
| "float_gt_zero NegInf = False"
| "float_gt_zero NaN = False"

fun float_lt_zero :: "float \<Rightarrow> bool" where
  "float_lt_zero (Finite r) = (r < 0)"
| "float_lt_zero PosInf = False"
| "float_lt_zero NegInf = True"
| "float_lt_zero NaN = False"

text \<open>
  \<^verbatim>\<open>int(f)\<close> truncates towards zero. For a value that is not finite the conversion is
  undefined in C++; the model returns the value the x86 conversion instructions produce
  (the most negative \<^verbatim>\<open>int\<close>), which equals none of the constants it is compared with.
\<close>

fun float_to_int :: "float \<Rightarrow> int" where
  "float_to_int (Finite r) = (if 0 \<le> r then \<lfloor>r\<rfloor> else - \<lfloor>- r\<rfloor>)"
| "float_to_int PosInf = - 2147483648"
| "float_to_int NegInf = - 2147483648"
| "float_to_int NaN = - 2147483648"

text \<open>
  The exponent of the leading binary digit of a positive rational: the \<open>e\<close> with
  \<open>2^e \<le> q < 2^(e+1)\<close>.
\<close>

definition floor_log2 :: "rat \<Rightarrow> int" where
  "floor_log2 q = (if 1 \<le> q then bitlen \<lfloor>q\<rfloor> - 1 else - bitlen (\<lceil>1 / q\<rceil> - 1))"

text \<open>Rounding to the nearest integer, a tie going to the even one.\<close>

definition round_half_even :: "rat \<Rightarrow> int" where
  "round_half_even y =
     (let m = \<lfloor>y\<rfloor>; f = y - of_int m
      in if f < 1 / 2 then m else if 1 / 2 < f then m + 1 else if even m then m else m + 1)"

text \<open>
  Rounding a rational to the binary floating-point format with \<open>p\<close> significant bits and
  exponents from \<open>emin\<close> to \<open>emax\<close>: the value is rounded to a multiple of the unit in the
  last place of its binade (of the smallest binade for a subnormal value); a result
  beyond the largest finite value is an infinity.
\<close>

definition ieee_round :: "nat \<Rightarrow> int \<Rightarrow> int \<Rightarrow> rat \<Rightarrow> float" where
  "ieee_round p emin emax q =
     (if q = 0 then Finite 0
      else
        (let e = max (floor_log2 \<bar>q\<bar>) emin;
             ulp = 2 powi (e - int p + 1);
             r = of_int (round_half_even (\<bar>q\<bar> / ulp)) * ulp
         in if 2 powi (emax + 1) \<le> r then (if 0 < q then PosInf else NegInf)
            else Finite (sgn q * r)))"

definition round_double :: "rat \<Rightarrow> float" where
  "round_double q = ieee_round 53 (- 1022) 1023 q"

definition round_float32 :: "rat \<Rightarrow> float" where
  "round_float32 q = ieee_round 24 (- 126) 127 q"

text \<open>The conversion of a \<^verbatim>\<open>double\<close> to a \<^verbatim>\<open>float\<close>.\<close>

fun double_to_float32 :: "float \<Rightarrow> float" where
  "double_to_float32 (Finite r) = round_float32 r"
| "double_to_float32 PosInf = PosInf"
| "double_to_float32 NegInf = NegInf"
| "double_to_float32 NaN = NaN"

text \<open>The \<^verbatim>\<open>double\<close> product of a \<^verbatim>\<open>double\<close> with a positive finite constant \<open>c\<close>.\<close>

fun double_times :: "rat \<Rightarrow> float \<Rightarrow> float" where
  "double_times c (Finite r) = round_double (r * c)"
| "double_times c PosInf = PosInf"
| "double_times c NegInf = NegInf"
| "double_times c NaN = NaN"

text \<open>
  The \<^verbatim>\<open>double\<close> that the literal \<^verbatim>\<open>1e-7\<close> denotes: 944473296573929 / 2^73, the
  \<^verbatim>\<open>double\<close> nearest to one ten-millionth.
\<close>

definition double_1e_minus_7 :: rat where
  "double_1e_minus_7 = 944473296573929 / 9444732965739290427392"

text \<open>\<^verbatim>\<open>std::round\<close>: to the nearest integer, a tie going away from zero.\<close>

definition round_half_away :: "rat \<Rightarrow> int" where
  "round_half_away y = (if 0 \<le> y then \<lfloor>y + 1 / 2\<rfloor> else - \<lfloor>- y + 1 / 2\<rfloor>)"

subsection \<open>User mission items\<close>

datatype CameraAction =
  CameraAction_NONE | TAKE_PHOTO | START_PHOTO_INTERVAL | STOP_PHOTO_INTERVAL
  | START_VIDEO | STOP_VIDEO

text \<open>
  Modelled from the spec: the classes \<^verbatim>\<open>MissionItem\<close> and \<^verbatim>\<open>MissionItemImpl\<close>
  (mission_item_impl.h) are not among the source files. The fields are those of the
  specification's UserMissionItem; an unset floating-point field is NaN.
\<close>

record MissionItem =
  latitude_deg :: float
  longitude_deg :: float
  relative_altitude_m :: float
  fly_through :: bool
  speed_m_s :: float
  gimbal_pitch_deg :: float
  gimbal_yaw_deg :: float
  loiter_time_s :: float
  camera_action :: CameraAction
  camera_photo_interval_s :: float

text \<open>
  Modelled from the spec: a freshly made \<^verbatim>\<open>MissionItem\<close> (\<^verbatim>\<open>std::make_shared<MissionItem>()\<close>):
  nothing set, \<open>fly_through\<close> defaulting to true, no camera action.
\<close>

definition new_MissionItem :: MissionItem where
  "new_MissionItem =
     \<lparr> latitude_deg = NaN, longitude_deg = NaN, relative_altitude_m = NaN,
       fly_through = True, speed_m_s = NaN, gimbal_pitch_deg = NaN, gimbal_yaw_deg = NaN,
       loiter_time_s = NaN, camera_action = CameraAction_NONE,
       camera_photo_interval_s = NaN \<rparr>"

subsection \<open>Wire items\<close>

text \<open>Constants of the MAVLink dialect (an external library).\<close>

definition MAV_CMD_NAV_WAYPOINT :: "16 word" where "MAV_CMD_NAV_WAYPOINT = 16"
definition MAV_CMD_NAV_LOITER_TIME :: "16 word" where "MAV_CMD_NAV_LOITER_TIME = 19"
definition MAV_CMD_DO_CHANGE_SPEED :: "16 word" where "MAV_CMD_DO_CHANGE_SPEED = 178"
definition MAV_CMD_DO_MOUNT_CONTROL :: "16 word" where "MAV_CMD_DO_MOUNT_CONTROL = 205"
definition MAV_CMD_IMAGE_START_CAPTURE :: "16 word" where "MAV_CMD_IMAGE_START_CAPTURE = 2000"
definition MAV_CMD_IMAGE_STOP_CAPTURE :: "16 word" where "MAV_CMD_IMAGE_STOP_CAPTURE = 2001"
definition MAV_CMD_VIDEO_START_CAPTURE :: "16 word" where "MAV_CMD_VIDEO_START_CAPTURE = 2500"
definition MAV_CMD_VIDEO_STOP_CAPTURE :: "16 word" where "MAV_CMD_VIDEO_STOP_CAPTURE = 2501"

definition MAV_FRAME_MISSION :: "8 word" where "MAV_FRAME_MISSION = 2"
definition MAV_FRAME_GLOBAL_RELATIVE_ALT_INT :: "8 word" where
  "MAV_FRAME_GLOBAL_RELATIVE_ALT_INT = 6"

definition MAV_MOUNT_MODE_MAVLINK_TARGETING :: int where
  "MAV_MOUNT_MODE_MAVLINK_TARGETING = 2"

definition MAV_MISSION_ACCEPTED :: "8 word" where "MAV_MISSION_ACCEPTED = 0"
definition MAV_MISSION_UNSUPPORTED :: "8 word" where "MAV_MISSION_UNSUPPORTED = 3"
definition MAV_MISSION_NO_SPACE :: "8 word" where "MAV_MISSION_NO_SPACE = 4"

text \<open>
  \<^verbatim>\<open>mavlink_mission_item_int_t\<close>: the payload of MISSION_ITEM_INT. The same record stands
  for the packed message of an upload and the decoded message of a download (packing and
  decoding belong to the MAVLink codec). \<open>item_x\<close> and \<open>item_y\<close> are \<^verbatim>\<open>int32_t\<close>, read
  with \<^const>\<open>sint\<close>.
\<close>

record mavlink_mission_item_int =
  item_seq :: "16 word"
  item_frame :: "8 word"
  item_command :: "16 word"
  item_current :: "8 word"
  item_autocontinue :: "8 word"
  item_param1 :: float
  item_param2 :: float
  item_param3 :: float
  item_param4 :: float
  item_x :: "32 word"
  item_y :: "32 word"
  item_z :: float

text \<open>
  \<^verbatim>\<open>mavlink_msg_mission_item_int_pack\<close>, with the arguments in the order of the call
  (after the addressing arguments). The sequence number is passed as a \<^verbatim>\<open>size_t\<close> and
  narrowed to \<^verbatim>\<open>uint16_t\<close>.
\<close>

definition mavlink_msg_mission_item_int_pack ::
  "nat \<Rightarrow> 8 word \<Rightarrow> 16 word \<Rightarrow> 8 word \<Rightarrow> 8 word \<Rightarrow> float \<Rightarrow> float \<Rightarrow> float \<Rightarrow> float
     \<Rightarrow> 32 word \<Rightarrow> 32 word \<Rightarrow> float \<Rightarrow> mavlink_mission_item_int" where
  "mavlink_msg_mission_item_int_pack sq fr cmd cur auto p1 p2 p3 p4 vx vy vz =
     \<lparr> item_seq = of_nat sq, item_frame = fr, item_command = cmd, item_current = cur,
       item_autocontinue = auto, item_param1 = p1, item_param2 = p2, item_param3 = p3,
       item_param4 = p4, item_x = vx, item_y = vy, item_z = vz \<rparr>"

subsection \<open>The getters of \<^verbatim>\<open>MissionItemImpl\<close>\<close>

text \<open>
  Modelled from the spec: \<^verbatim>\<open>MissionItemImpl::is_position_finite\<close> is not among the source
  files; a position is valid when latitude and longitude are both finite.
\<close>

definition is_position_finite :: "MissionItem \<Rightarrow> bool" where
  "is_position_finite item = (isfinite (latitude_deg item) \<and> isfinite (longitude_deg item))"

text \<open>
  Modelled from the spec: the conversion of degrees to the \<^verbatim>\<open>int32_t\<close> wire coordinate,
  "x = lat * 1e7", used by \<^verbatim>\<open>get_mavlink_x\<close> and \<^verbatim>\<open>get_mavlink_y\<close> (not among the
  source files). The product is the \<^verbatim>\<open>double\<close> product. The spec does not say how the
  product becomes an integer; it is rounded to the nearest integer here (as \<^verbatim>\<open>std::round\<close>
  does) and narrowed to 32 bits. A product that is not finite has no defined conversion;
  it is given the most negative \<^verbatim>\<open>int\<close>, as in \<open>float_to_int\<close>.
\<close>

definition degrees_to_int32 :: "float \<Rightarrow> 32 word" where
  "degrees_to_int32 f =
     (case double_times 10000000 f of
        Finite y \<Rightarrow> word_of_int (round_half_away y)
      | _ \<Rightarrow> word_of_int (- 2147483648))"

definition get_mavlink_x :: "MissionItem \<Rightarrow> 32 word" where
  "get_mavlink_x item = degrees_to_int32 (latitude_deg item)"

definition get_mavlink_y :: "MissionItem \<Rightarrow> 32 word" where
  "get_mavlink_y item = degrees_to_int32 (longitude_deg item)"

text \<open>Modelled from the spec: "z = relative_altitude" (\<^verbatim>\<open>get_mavlink_z\<close>).\<close>

definition get_mavlink_z :: "MissionItem \<Rightarrow> float" where
  "get_mavlink_z item = relative_altitude_m item"

text \<open>
  Modelled from the spec: "command = NAV_WAYPOINT, frame = GLOBAL_RELATIVE_ALT_INT",
  "autocontinue = 1 for every emitted wire item" (\<^verbatim>\<open>get_mavlink_cmd\<close>,
  \<^verbatim>\<open>get_mavlink_frame\<close>, \<^verbatim>\<open>get_mavlink_autocontinue\<close>).
\<close>

definition get_mavlink_cmd :: "MissionItem \<Rightarrow> 16 word" where
  "get_mavlink_cmd item = MAV_CMD_NAV_WAYPOINT"

definition get_mavlink_frame :: "MissionItem \<Rightarrow> 8 word" where
  "get_mavlink_frame item = MAV_FRAME_GLOBAL_RELATIVE_ALT_INT"

definition get_mavlink_autocontinue :: "MissionItem \<Rightarrow> 8 word" where
  "get_mavlink_autocontinue item = 1"

text \<open>
  Modelled from the spec: "param1 = 0 if fly_through else positive"
  (\<^verbatim>\<open>get_mavlink_param1\<close>). The spec names no value for the positive hold time; half a
  second stands for it.
\<close>

definition get_mavlink_param1 :: "MissionItem \<Rightarrow> float" where
  "get_mavlink_param1 item = (if fly_through item then Finite 0 else Finite (1 / 2))"

text \<open>
  Modelled from the spec: the spec gives no value for params 2 to 4 of a waypoint
  (\<^verbatim>\<open>get_mavlink_param2\<close> to \<^verbatim>\<open>get_mavlink_param4\<close>); they are left empty (NaN).
\<close>

definition get_mavlink_param2 :: "MissionItem \<Rightarrow> float" where
  "get_mavlink_param2 item = NaN"

definition get_mavlink_param3 :: "MissionItem \<Rightarrow> float" where
  "get_mavlink_param3 item = NaN"

definition get_mavlink_param4 :: "MissionItem \<Rightarrow> float" where
  "get_mavlink_param4 item = NaN"

subsection \<open>The index map\<close>

text \<open>
  Modelled from the spec: the declaration of \<^verbatim>\<open>_mavlink_mission_item_to_mission_item_indices\<close>
  is in mission_impl.h, which is not among the source files. The specification's IndexMap
  is a function from wire sequence number to user index, and the source inserts
  \<^verbatim>\<open>std::pair<int, int>\<close> values, calls \<^verbatim>\<open>find\<close> with a key and iterates from \<^verbatim>\<open>begin()\<close> to
  \<^verbatim>\<open>end()\<close> reading \<^verbatim>\<open>first\<close> and \<^verbatim>\<open>second\<close>: a \<^verbatim>\<open>std::map<int, int>\<close>. It is an association
  list kept in ascending key order, which is the order in which the code iterates over
  it. \<^verbatim>\<open>insert\<close> leaves the map as it is when the key is already present.
\<close>

type_synonym index_map = "(int \<times> int) list"

fun map_insert :: "int \<times> int \<Rightarrow> index_map \<Rightarrow> index_map" where
  "map_insert (k, v) [] = [(k, v)]"
| "map_insert (k, v) ((k', v') # m) =
     (if k = k' then (k', v') # m
      else if k < k' then (k, v) # (k', v') # m
      else (k', v') # map_insert (k, v) m)"

text \<open>\<^verbatim>\<open>find\<close>: the value stored under a key, if any.\<close>

fun map_find :: "index_map \<Rightarrow> int \<Rightarrow> int option" where
  "map_find [] k = None"
| "map_find ((k', v') # m) k = (if k' = k then Some v' else map_find m k)"

section \<open>Upload translation: \<^verbatim>\<open>assemble_mavlink_messages\<close>\<close>

text \<open>
  The variables the loop of \<^verbatim>\<open>assemble_mavlink_messages\<close> works on: the message vector,
  the index map, and the last valid position (\<^verbatim>\<open>last_frame\<close>, \<^verbatim>\<open>last_x\<close>, \<^verbatim>\<open>last_y\<close>,
  \<^verbatim>\<open>last_z\<close>), which is \<open>None\<close> while \<^verbatim>\<open>last_position_valid\<close> is false.
\<close>

record assembly =
  a_messages :: "mavlink_mission_item_int list"
  a_indices :: index_map
  a_last :: "(8 word \<times> 32 word \<times> 32 word \<times> float) option"

text \<open>"Current is the 0th waypoint": the flag each block computes from the vector's size.\<close>

definition current_flag :: "mavlink_mission_item_int list \<Rightarrow> 8 word" where
  "current_flag ms = (if length ms = 0 then 1 else 0)"

definition add_position :: "nat \<Rightarrow> MissionItem \<Rightarrow> assembly \<Rightarrow> assembly" where
  "add_position item_i item a =
     (if is_position_finite item then
        (let current = current_flag (a_messages a);
             message = mavlink_msg_mission_item_int_pack (length (a_messages a))
               (get_mavlink_frame item) (get_mavlink_cmd item) current
               (get_mavlink_autocontinue item)
               (get_mavlink_param1 item) (get_mavlink_param2 item)
               (get_mavlink_param3 item) (get_mavlink_param4 item)
               (get_mavlink_x item) (get_mavlink_y item) (get_mavlink_z item)
         in a\<lparr> a_last := Some (get_mavlink_frame item, get_mavlink_x item,
                                get_mavlink_y item, get_mavlink_z item),
                a_indices := map_insert (int (length (a_messages a)), int item_i) (a_indices a),
                a_messages := a_messages a @ [message] \<rparr>)
      else a)"

definition add_speed :: "nat \<Rightarrow> MissionItem \<Rightarrow> assembly \<Rightarrow> assembly" where
  "add_speed item_i item a =
     (if isfinite (speed_m_s item) then
        (let current = current_flag (a_messages a);
             autocontinue = 1;
             message_speed = mavlink_msg_mission_item_int_pack (length (a_messages a))
               MAV_FRAME_MISSION MAV_CMD_DO_CHANGE_SPEED current autocontinue
               (Finite 1) (speed_m_s item) (Finite (- 1)) (Finite 0) 0 0 NaN
         in a\<lparr> a_indices := map_insert (int (length (a_messages a)), int item_i) (a_indices a),
                a_messages := a_messages a @ [message_speed] \<rparr>)
      else a)"

definition add_gimbal :: "nat \<Rightarrow> MissionItem \<Rightarrow> assembly \<Rightarrow> assembly" where
  "add_gimbal item_i item a =
     (if isfinite (gimbal_yaw_deg item) \<or> isfinite (gimbal_pitch_deg item) then
        (let current = current_flag (a_messages a);
             autocontinue = 1;
             message_gimbal = mavlink_msg_mission_item_int_pack (length (a_messages a))
               MAV_FRAME_MISSION MAV_CMD_DO_MOUNT_CONTROL current autocontinue
               (gimbal_pitch_deg item) (Finite 0) (gimbal_yaw_deg item) NaN 0 0
               (Finite (of_int MAV_MOUNT_MODE_MAVLINK_TARGETING))
         in a\<lparr> a_indices := map_insert (int (length (a_messages a)), int item_i) (a_indices a),
                a_messages := a_messages a @ [message_gimbal] \<rparr>)
      else a)"

definition add_loiter :: "nat \<Rightarrow> MissionItem \<Rightarrow> assembly \<Rightarrow> assembly" where
  "add_loiter item_i item a =
     (if isfinite (loiter_time_s item) then
        (case a_last a of
           None \<Rightarrow> a
         | Some (last_frame, last_x, last_y, last_z) \<Rightarrow>
             (let current = current_flag (a_messages a);
                  autocontinue = 1;
                  message_delay = mavlink_msg_mission_item_int_pack (length (a_messages a))
                    last_frame MAV_CMD_NAV_LOITER_TIME current autocontinue
                    (loiter_time_s item) NaN (Finite 0) (Finite 0) last_x last_y last_z
              in a\<lparr> a_indices :=
                       map_insert (int (length (a_messages a)), int item_i) (a_indices a),
                     a_messages := a_messages a @ [message_delay] \<rparr>))
      else a)"

text \<open>
  The \<^verbatim>\<open>switch\<close> on the camera action: command, param1, param2, param3. The photo
  interval is a \<^verbatim>\<open>double\<close> assigned to the \<^verbatim>\<open>float\<close> variable \<^verbatim>\<open>param2\<close>.
\<close>

fun camera_command :: "MissionItem \<Rightarrow> 16 word \<times> float \<times> float \<times> float" where
  "camera_command item =
     (case camera_action item of
        TAKE_PHOTO \<Rightarrow> (MAV_CMD_IMAGE_START_CAPTURE, Finite 0, Finite 0, Finite 1)
      | START_PHOTO_INTERVAL \<Rightarrow>
          (MAV_CMD_IMAGE_START_CAPTURE, Finite 0,
           double_to_float32 (camera_photo_interval_s item), Finite 0)
      | STOP_PHOTO_INTERVAL \<Rightarrow> (MAV_CMD_IMAGE_STOP_CAPTURE, Finite 0, NaN, NaN)
      | START_VIDEO \<Rightarrow> (MAV_CMD_VIDEO_START_CAPTURE, Finite 0, NaN, NaN)
      | STOP_VIDEO \<Rightarrow> (MAV_CMD_VIDEO_STOP_CAPTURE, Finite 0, NaN, NaN)
      | CameraAction_NONE \<Rightarrow> (0, NaN, NaN, NaN))"

definition add_camera :: "nat \<Rightarrow> MissionItem \<Rightarrow> assembly \<Rightarrow> assembly" where
  "add_camera item_i item a =
     (if camera_action item \<noteq> CameraAction_NONE then
        (let current = current_flag (a_messages a);
             autocontinue = 1;
             (command, param1, param2, param3) = camera_command item;
             message_camera = mavlink_msg_mission_item_int_pack (length (a_messages a))
               MAV_FRAME_MISSION command current autocontinue
               param1 param2 param3 NaN 0 0 NaN
         in a\<lparr> a_indices := map_insert (int (length (a_messages a)), int item_i) (a_indices a),
                a_messages := a_messages a @ [message_camera] \<rparr>)
      else a)"

text \<open>One pass of the loop body, the five blocks in the order of the source.\<close>

definition assemble_item :: "nat \<Rightarrow> MissionItem \<Rightarrow> assembly \<Rightarrow> assembly" where
  "assemble_item item_i item a =
     add_camera item_i item (add_loiter item_i item (add_gimbal item_i item
       (add_speed item_i item (add_position item_i item a))))"

fun assemble_loop :: "nat \<Rightarrow> MissionItem list \<Rightarrow> assembly \<Rightarrow> assembly" where
  "assemble_loop item_i [] a = a"
| "assemble_loop item_i (item # items) a =
     assemble_loop (Suc item_i) items (assemble_item item_i item a)"

section \<open>The engine: state and effects\<close>

datatype Activity = NONE | SET_MISSION | GET_MISSION | SET_CURRENT | SEND_COMMAND

datatype Result =
  SUCCESS | ERROR | TOO_MANY_MISSION_ITEMS | BUSY | TIMEOUT | INVALID_ARGUMENT
  | UNSUPPORTED | NO_MISSION_AVAILABLE | FAILED_TO_OPEN_QGC_PLAN | FAILED_TO_PARSE_QGC_PLAN

text \<open>
  A callback is a closure supplied by the caller; it is identified by a number, and
  \<open>None\<close> is the empty \<^verbatim>\<open>std::function\<close> (\<^verbatim>\<open>nullptr\<close>).
\<close>

type_synonym callback = nat

datatype timeout_class = RETRY_TIMEOUT_S | PROCESS_TIMEOUT_S

datatype FlightMode = FlightMode_MISSION | FlightMode_HOLD

text \<open>The messages the engine hands to \<^verbatim>\<open>send_message\<close>, by their payload.\<close>

datatype mavlink_message =
  MISSION_COUNT "16 word"
  | MISSION_REQUEST_LIST
  | MISSION_REQUEST_INT "16 word"
  | MISSION_ITEM_INT mavlink_mission_item_int
  | MISSION_ACK "8 word"
  | MISSION_SET_CURRENT "16 word"

text \<open>
  Everything the engine does to the outside, in the order it does it: a call of
  \<^verbatim>\<open>send_message\<close>, a call of a user callback with its arguments, a call of the parent's
  timeout interface, and a call of \<^verbatim>\<open>set_flight_mode_async\<close> (with the user callback bound
  into its completion handler).
\<close>

datatype event =
  Send mavlink_message
  | ResultCallback callback Result
  | ItemsAndResultCallback callback Result "MissionItem list"
  | ProgressCallback callback int int
  | RegisterTimeout timeout_class
  | RefreshTimeout
  | UnregisterTimeout
  | SetFlightMode FlightMode "callback option"

text \<open>
  The member variables of \<^verbatim>\<open>MissionImpl\<close>, under the names of the source without the
  leading underscore. Their declarations are in mission_impl.h, which is not among the
  source files; the types are the ones their uses in mission_impl.cpp call for. The two
  progress counters are \<^verbatim>\<open>int\<close> (32 bits, read with \<^const>\<open>sint\<close>; they are tested for
  being negative and set to -1); the download counters hold values between -1 and 65536
  and are integers; \<open>retries\<close> is an unsigned counter that never exceeds the retry limit
  by more than one.
\<close>

record MissionImpl =
  activity :: Activity
  retries :: nat
  last_current_mavlink_mission_item :: "32 word"
  last_reached_mavlink_mission_item :: "32 word"
  mission_items :: "MissionItem list"
  mavlink_mission_item_messages :: "mavlink_mission_item_int list"
  mavlink_mission_item_to_mission_item_indices :: index_map
  mavlink_mission_items_downloaded :: "mavlink_mission_item_int list"
  num_mission_items_to_download :: int
  next_mission_item_to_download :: int
  result_callback :: "callback option"
  mission_items_and_result_callback :: "callback option"
  progress_callback :: "callback option"

text \<open>The engine as constructed: idle, nothing cached, no callback set.\<close>

definition initial_MissionImpl :: MissionImpl where
  "initial_MissionImpl =
     \<lparr> activity = NONE, retries = 0,
       last_current_mavlink_mission_item = - 1, last_reached_mavlink_mission_item = - 1,
       mission_items = [], mavlink_mission_item_messages = [],
       mavlink_mission_item_to_mission_item_indices = [],
       mavlink_mission_items_downloaded = [],
       num_mission_items_to_download = - 1, next_mission_item_to_download = - 1,
       result_callback = None, mission_items_and_result_callback = None,
       progress_callback = None \<rparr>"

text \<open>
  Modelled from the spec: the addressing constants \<^verbatim>\<open>GCSClient::system_id\<close> and
  \<^verbatim>\<open>GCSClient::component_id\<close> (class \<^verbatim>\<open>GCSClient\<close> is not among the source files, and the
  spec names no values). Nothing proved below depends on their values.
\<close>

definition GCSClient_system_id :: "8 word" where "GCSClient_system_id = 0"
definition GCSClient_component_id :: "8 word" where "GCSClient_component_id = 0"

subsection \<open>Reporting\<close>

definition report_mission_result :: "callback option \<Rightarrow> Result \<Rightarrow> event list" where
  "report_mission_result callback result =
     (case callback of None \<Rightarrow> [] | Some c \<Rightarrow> [ResultCallback c result])"

definition report_mission_items_and_result ::
  "callback option \<Rightarrow> Result \<Rightarrow> MissionImpl \<Rightarrow> MissionImpl \<times> event list" where
  "report_mission_items_and_result callback result s =
     (case callback of
        None \<Rightarrow> (s, [])
      | Some c \<Rightarrow>
          (let s' = (if result \<noteq> SUCCESS then s\<lparr> mission_items := [] \<rparr> else s)
           in (s', [ItemsAndResultCallback c result (mission_items s')])))"

subsection \<open>Progress queries\<close>

text \<open>
  \<^verbatim>\<open>unsigned(_last_reached_mavlink_mission_item + 1)\<close> is the 32-bit sum read as an
  unsigned number; the vector's size is a \<^verbatim>\<open>size_t\<close>.
\<close>

definition is_mission_finished :: "MissionImpl \<Rightarrow> bool" where
  "is_mission_finished s =
     (if sint (last_current_mavlink_mission_item s) < 0 then False
      else if sint (last_reached_mavlink_mission_item s) < 0 then False
      else if length (mavlink_mission_item_messages s) = 0 then False
      else unat (last_reached_mavlink_mission_item s + 1)
             = length (mavlink_mission_item_messages s))"

definition total_mission_items :: "MissionImpl \<Rightarrow> int" where
  "total_mission_items s = int (length (mission_items s))"

definition current_mission_item :: "MissionImpl \<Rightarrow> int" where
  "current_mission_item s =
     (if is_mission_finished s then total_mission_items s
      else (case map_find (mavlink_mission_item_to_mission_item_indices s)
                   (sint (last_current_mavlink_mission_item s)) of
              Some entry \<Rightarrow> entry
            | None \<Rightarrow> - 1))"

definition report_progress :: "MissionImpl \<Rightarrow> event list" where
  "report_progress s =
     (case progress_callback s of
        None \<Rightarrow> []
      | Some c \<Rightarrow> [ProgressCallback c (current_mission_item s) (total_mission_items s)])"

subsection \<open>Upload\<close>

definition copy_mission_item_vector :: "MissionItem list \<Rightarrow> MissionImpl \<Rightarrow> MissionImpl" where
  "copy_mission_item_vector items s = s\<lparr> mission_items := items \<rparr>"

text \<open>
  \<^verbatim>\<open>assemble_mavlink_messages\<close> clears the message vector and runs the loop over
  \<^verbatim>\<open>_mission_items\<close>; the index map is the member variable, with whatever it holds.
\<close>

definition assemble_mavlink_messages :: "MissionImpl \<Rightarrow> MissionImpl" where
  "assemble_mavlink_messages s =
     (let a = assemble_loop 0 (mission_items s)
                \<lparr> a_messages = [],
                  a_indices = mavlink_mission_item_to_mission_item_indices s,
                  a_last = None \<rparr>
      in s\<lparr> mavlink_mission_item_messages := a_messages a,
             mavlink_mission_item_to_mission_item_indices := a_indices a \<rparr>)"

text \<open>
  \<open>supports_int\<close> is what \<^verbatim>\<open>does_support_mission_int\<close> answers and \<open>send_ok\<close> what
  \<^verbatim>\<open>send_message\<close> returns.
\<close>

definition upload_mission_async ::
  "MissionItem list \<Rightarrow> callback option \<Rightarrow> bool \<Rightarrow> bool \<Rightarrow> MissionImpl
     \<Rightarrow> MissionImpl \<times> event list" where
  "upload_mission_async items callback supports_int send_ok s =
     (if activity s \<noteq> NONE then (s, report_mission_result callback BUSY)
      else if \<not> supports_int then (s, report_mission_result callback ERROR)
      else
        (let s1 = assemble_mavlink_messages (copy_mission_item_vector items s);
             message = MISSION_COUNT (of_nat (length (mavlink_mission_item_messages s1)))
         in if \<not> send_ok then (s1, Send message # report_mission_result callback ERROR)
            else (s1\<lparr> activity := SET_MISSION, result_callback := callback \<rparr>,
                  [Send message, RegisterTimeout PROCESS_TIMEOUT_S])))"

definition upload_mission_item :: "16 word \<Rightarrow> MissionImpl \<Rightarrow> event list" where
  "upload_mission_item sq s =
     (if unat sq \<ge> length (mavlink_mission_item_messages s) then []
      else [Send (MISSION_ITEM_INT (mavlink_mission_item_messages s ! unat sq))])"

definition process_mission_request :: "MissionImpl \<Rightarrow> MissionImpl \<times> event list" where
  "process_mission_request s = (s, [Send (MISSION_ACK MAV_MISSION_UNSUPPORTED), RefreshTimeout])"

record mavlink_mission_request_int =
  request_target_system :: "8 word"
  request_target_component :: "8 word"
  request_seq :: "16 word"

definition process_mission_request_int ::
  "mavlink_mission_request_int \<Rightarrow> MissionImpl \<Rightarrow> MissionImpl \<times> event list" where
  "process_mission_request_int mission_request_int s =
     (if request_target_system mission_request_int \<noteq> GCSClient_system_id \<and>
         request_target_component mission_request_int \<noteq> GCSClient_component_id
      then (s, [])
      else if activity s \<noteq> SET_MISSION then (s, [])
      else (let s1 = s\<lparr> retries := 0 \<rparr>
            in (s1, upload_mission_item (request_seq mission_request_int) s1
                      @ [RefreshTimeout])))"

record mavlink_mission_ack =
  ack_target_system :: "8 word"
  ack_target_component :: "8 word"
  ack_type :: "8 word"

definition process_mission_ack ::
  "mavlink_mission_ack \<Rightarrow> MissionImpl \<Rightarrow> MissionImpl \<times> event list" where
  "process_mission_ack mission_ack s =
     (if activity s \<noteq> SET_MISSION then (s, [])
      else if ack_target_system mission_ack \<noteq> GCSClient_system_id \<and>
              ack_target_component mission_ack \<noteq> GCSClient_component_id
      then (s, [])
      else if ack_type mission_ack = MAV_MISSION_ACCEPTED then
        (s\<lparr> last_current_mavlink_mission_item := - 1,
            last_reached_mavlink_mission_item := - 1,
            activity := NONE \<rparr>,
         UnregisterTimeout # report_mission_result (result_callback s) SUCCESS)
      else if ack_type mission_ack = MAV_MISSION_NO_SPACE then
        (s, UnregisterTimeout
              # report_mission_result (result_callback s) TOO_MANY_MISSION_ITEMS)
      else (s, UnregisterTimeout # report_mission_result (result_callback s) ERROR))"

subsection \<open>Progress messages\<close>

text \<open>
  The sequence number of MISSION_CURRENT and MISSION_ITEM_REACHED is a \<^verbatim>\<open>uint16_t\<close>; it
  is compared with and assigned to an \<^verbatim>\<open>int\<close>, that is, zero-extended.
\<close>

definition process_mission_current :: "16 word \<Rightarrow> MissionImpl \<Rightarrow> MissionImpl \<times> event list" where
  "process_mission_current sq s =
     (let (s1, ev1) =
            (if last_current_mavlink_mission_item s \<noteq> ucast sq then
               (let s' = s\<lparr> last_current_mavlink_mission_item := ucast sq \<rparr>
                in (s', report_progress s'))
             else (s, []))
      in if activity s1 = SET_CURRENT \<and> last_current_mavlink_mission_item s1 = ucast sq then
           (s1\<lparr> last_current_mavlink_mission_item := - 1, activity := NONE \<rparr>,
            ev1 @ report_mission_result (result_callback s1) SUCCESS @ [UnregisterTimeout])
         else (s1, ev1))"

definition process_mission_item_reached ::
  "16 word \<Rightarrow> MissionImpl \<Rightarrow> MissionImpl \<times> event list" where
  "process_mission_item_reached sq s =
     (if last_reached_mavlink_mission_item s \<noteq> ucast sq then
        (let s' = s\<lparr> last_reached_mavlink_mission_item := ucast sq \<rparr>
         in (s', report_progress s'))
      else (s, []))"

subsection \<open>Download\<close>

definition download_mission_async ::
  "callback option \<Rightarrow> bool \<Rightarrow> MissionImpl \<Rightarrow> MissionImpl \<times> event list" where
  "download_mission_async callback send_ok s =
     (if activity s \<noteq> NONE then report_mission_items_and_result callback BUSY s
      else if \<not> send_ok then
        (let (s', ev) = report_mission_items_and_result callback ERROR s
         in (s', Send MISSION_REQUEST_LIST # ev))
      else
        (s\<lparr> mavlink_mission_items_downloaded := [],
            activity := GET_MISSION,
            retries := 0,
            mission_items_and_result_callback := callback \<rparr>,
         [Send MISSION_REQUEST_LIST, RegisterTimeout RETRY_TIMEOUT_S]))"

text \<open>The request is packed with the \<^verbatim>\<open>int\<close> counter narrowed to \<^verbatim>\<open>uint16_t\<close>.\<close>

definition download_next_mission_item :: "MissionImpl \<Rightarrow> event list" where
  "download_next_mission_item s =
     [Send (MISSION_REQUEST_INT (word_of_int (next_mission_item_to_download s)))]"

definition process_mission_count :: "16 word \<Rightarrow> MissionImpl \<Rightarrow> MissionImpl \<times> event list" where
  "process_mission_count count s =
     (if activity s \<noteq> GET_MISSION then (s, [])
      else (let s1 = s\<lparr> num_mission_items_to_download := uint count,
                         next_mission_item_to_download := 0 \<rparr>
            in (s1, [UnregisterTimeout, RegisterTimeout RETRY_TIMEOUT_S]
                      @ download_next_mission_item s1)))"

text \<open>
  Modelled from the spec: the setters of \<^verbatim>\<open>MissionItem\<close> (\<^verbatim>\<open>set_position\<close>,
  \<^verbatim>\<open>set_relative_altitude\<close>, \<^verbatim>\<open>set_fly_through\<close>, \<^verbatim>\<open>set_gimbal_pitch_and_yaw\<close>,
  \<^verbatim>\<open>set_camera_action\<close>, \<^verbatim>\<open>set_camera_photo_interval\<close>, \<^verbatim>\<open>set_speed\<close>,
  \<^verbatim>\<open>set_loiter_time\<close>) are not among the source files; each stores its argument in the
  field of its name. \<open>int32_to_degrees\<close> is the argument \<^verbatim>\<open>double(it->x) * 1e-7\<close>: the
  \<^verbatim>\<open>int32_t\<close> converted exactly, times the \<^verbatim>\<open>double\<close> of the literal, rounded as a
  \<^verbatim>\<open>double\<close> product is.
\<close>

definition int32_to_degrees :: "32 word \<Rightarrow> float" where
  "int32_to_degrees w = double_times double_1e_minus_7 (Finite (of_int (sint w)))"

text \<open>
  The loop of \<^verbatim>\<open>assemble_mission_items\<close> over the downloaded items, with its variables
  (the output vector, the item being assembled, \<^verbatim>\<open>have_set_position\<close>, \<^verbatim>\<open>result\<close>) as
  arguments. A \<^verbatim>\<open>break\<close> returns them at once.
\<close>

fun assemble_mission_items_loop ::
  "mavlink_mission_item_int list \<Rightarrow> MissionItem list \<Rightarrow> MissionItem \<Rightarrow> bool \<Rightarrow> Result
     \<Rightarrow> MissionItem list \<times> MissionItem \<times> Result" where
  "assemble_mission_items_loop [] items new_mission_item have_set_position result =
     (items, new_mission_item, result)"
| "assemble_mission_items_loop (it # rest) items new_mission_item have_set_position result =
     (if item_command it = MAV_CMD_NAV_WAYPOINT then
        (if item_frame it \<noteq> MAV_FRAME_GLOBAL_RELATIVE_ALT_INT then
           (items, new_mission_item, UNSUPPORTED)
         else
           (let (items1, item1) =
                  (if have_set_position then (items @ [new_mission_item], new_MissionItem)
                   else (items, new_mission_item))
            in assemble_mission_items_loop rest items1
                 (item1\<lparr> latitude_deg := int32_to_degrees (item_x it),
                         longitude_deg := int32_to_degrees (item_y it),
                         relative_altitude_m := item_z it,
                         fly_through := \<not> float_gt_zero (item_param1 it) \<rparr>)
                 True result))
      else if item_command it = MAV_CMD_DO_MOUNT_CONTROL then
        (if float_to_int (item_z it) \<noteq> MAV_MOUNT_MODE_MAVLINK_TARGETING then
           (items, new_mission_item, UNSUPPORTED)
         else assemble_mission_items_loop rest items
                (new_mission_item\<lparr> gimbal_pitch_deg := item_param1 it,
                                   gimbal_yaw_deg := item_param3 it \<rparr>)
                have_set_position result)
      else if item_command it = MAV_CMD_IMAGE_START_CAPTURE then
        (if float_gt_zero (item_param2 it) \<and> float_to_int (item_param3 it) = 0 then
           assemble_mission_items_loop rest items
             (new_mission_item\<lparr> camera_action := START_PHOTO_INTERVAL,
                                camera_photo_interval_s := item_param2 it \<rparr>)
             have_set_position result
         else if float_to_int (item_param2 it) = 0 \<and> float_to_int (item_param3 it) = 1 then
           assemble_mission_items_loop rest items
             (new_mission_item\<lparr> camera_action := TAKE_PHOTO \<rparr>) have_set_position result
         else (items, new_mission_item, UNSUPPORTED))
      else if item_command it = MAV_CMD_IMAGE_STOP_CAPTURE then
        assemble_mission_items_loop rest items
          (new_mission_item\<lparr> camera_action := STOP_PHOTO_INTERVAL \<rparr>) have_set_position result
      else if item_command it = MAV_CMD_VIDEO_START_CAPTURE then
        assemble_mission_items_loop rest items
          (new_mission_item\<lparr> camera_action := START_VIDEO \<rparr>) have_set_position result
      else if item_command it = MAV_CMD_VIDEO_STOP_CAPTURE then
        assemble_mission_items_loop rest items
          (new_mission_item\<lparr> camera_action := STOP_VIDEO \<rparr>) have_set_position result
      else if item_command it = MAV_CMD_DO_CHANGE_SPEED then
        (if float_to_int (item_param1 it) = 1 \<and> float_lt_zero (item_param3 it) \<and>
            float_to_int (item_param4 it) = 0 then
           assemble_mission_items_loop rest items
             (new_mission_item\<lparr> speed_m_s := item_param2 it \<rparr>) have_set_position result
         else assemble_mission_items_loop rest items new_mission_item have_set_position
                UNSUPPORTED)
      else if item_command it = MAV_CMD_NAV_LOITER_TIME then
        assemble_mission_items_loop rest items
          (new_mission_item\<lparr> loiter_time_s := item_param1 it \<rparr>) have_set_position result
      else (items, new_mission_item, UNSUPPORTED))"

text \<open>
  \<^verbatim>\<open>assemble_mission_items\<close>. The two early \<^verbatim>\<open>return\<close>s leave after \<^verbatim>\<open>_mission_items\<close> has
  been cleared, before anything is reported.
\<close>

definition assemble_mission_items :: "MissionImpl \<Rightarrow> MissionImpl \<times> event list" where
  "assemble_mission_items s =
     (let s0 = s\<lparr> mission_items := [] \<rparr>
      in if length (mavlink_mission_items_downloaded s0) > 0 \<and>
            item_command (mavlink_mission_items_downloaded s0 ! 0) \<noteq> MAV_CMD_NAV_WAYPOINT
         then (s0, [])
         else if length (mavlink_mission_items_downloaded s0) = 0 then (s0, [])
         else
           (let (items, new_mission_item, result) =
                  assemble_mission_items_loop (mavlink_mission_items_downloaded s0)
                    [] new_MissionItem False SUCCESS;
                s1 = s0\<lparr> mission_items := items @ [new_mission_item] \<rparr>;
                (s2, ev) = report_mission_items_and_result
                             (mission_items_and_result_callback s1) result s1
            in (s2\<lparr> activity := NONE \<rparr>, ev)))"

definition process_mission_item_int ::
  "mavlink_mission_item_int \<Rightarrow> MissionImpl \<Rightarrow> MissionImpl \<times> event list" where
  "process_mission_item_int mission_item_int s =
     (if uint (item_seq mission_item_int) = next_mission_item_to_download s then
        (let s1 = s\<lparr> mavlink_mission_items_downloaded :=
                        mavlink_mission_items_downloaded s @ [mission_item_int],
                      retries := 0 \<rparr>
         in if next_mission_item_to_download s1 + 1 = num_mission_items_to_download s1 then
              (let (s2, ev) = assemble_mission_items s1
               in (s2, [UnregisterTimeout, Send (MISSION_ACK MAV_MISSION_ACCEPTED)] @ ev))
            else
              (let s2 = s1\<lparr> next_mission_item_to_download :=
                               next_mission_item_to_download s1 + 1 \<rparr>
               in (s2, RefreshTimeout # download_next_mission_item s2)))
      else (s, RefreshTimeout # download_next_mission_item s))"

subsection \<open>Control operations\<close>

definition start_mission_async ::
  "callback option \<Rightarrow> MissionImpl \<Rightarrow> MissionImpl \<times> event list" where
  "start_mission_async callback s =
     (if activity s \<noteq> NONE then (s, report_mission_result callback BUSY)
      else (s\<lparr> activity := SEND_COMMAND, result_callback := callback \<rparr>,
            [SetFlightMode FlightMode_MISSION callback]))"

definition pause_mission_async ::
  "callback option \<Rightarrow> MissionImpl \<Rightarrow> MissionImpl \<times> event list" where
  "pause_mission_async callback s =
     (if activity s \<noteq> NONE then (s, report_mission_result callback BUSY)
      else (s\<lparr> activity := SEND_COMMAND, result_callback := callback \<rparr>,
            [SetFlightMode FlightMode_HOLD callback]))"

text \<open>\<open>command_ok\<close>: the command result is \<^verbatim>\<open>MAVLinkCommands::Result::SUCCESS\<close>.\<close>

definition receive_command_result ::
  "bool \<Rightarrow> callback option \<Rightarrow> MissionImpl \<Rightarrow> MissionImpl \<times> event list" where
  "receive_command_result command_ok callback s =
     (let s1 = (if activity s = SEND_COMMAND then s\<lparr> activity := NONE \<rparr> else s)
      in (s1, UnregisterTimeout
                # (if command_ok then report_mission_result callback SUCCESS
                   else report_mission_result callback ERROR)))"

text \<open>
  The search loop of \<^verbatim>\<open>set_current_mission_item_async\<close>: the key of the first entry, in
  the map's iteration order, whose value is \<open>current\<close>; -1 (the initial value of
  \<^verbatim>\<open>mavlink_index\<close>) when the loop ends without a match.
\<close>

fun find_mavlink_index :: "index_map \<Rightarrow> int \<Rightarrow> int" where
  "find_mavlink_index [] current = - 1"
| "find_mavlink_index ((first, second) # m) current =
     (if second = current then first else find_mavlink_index m current)"

text \<open>The message is packed with \<^verbatim>\<open>mavlink_index\<close> narrowed to \<^verbatim>\<open>uint16_t\<close>.\<close>

definition set_current_mission_item_async ::
  "int \<Rightarrow> callback option \<Rightarrow> bool \<Rightarrow> MissionImpl \<Rightarrow> MissionImpl \<times> event list" where
  "set_current_mission_item_async current callback send_ok s =
     (if activity s \<noteq> NONE then (s, report_mission_result callback BUSY)
      else
        (let mavlink_index =
               find_mavlink_index (mavlink_mission_item_to_mission_item_indices s) current
         in if mavlink_index < 0 then (s, report_mission_result callback INVALID_ARGUMENT)
            else if \<not> send_ok then
              (s, Send (MISSION_SET_CURRENT (word_of_int mavlink_index))
                    # report_mission_result callback ERROR)
            else (s\<lparr> activity := SET_CURRENT, result_callback := callback \<rparr>,
                  [Send (MISSION_SET_CURRENT (word_of_int mavlink_index))])))"

subsection \<open>Timeout\<close>

text \<open>
  \<^verbatim>\<open>process_timeout\<close>. The constant \<^verbatim>\<open>MAX_RETRIES\<close> is declared in mission_impl.h, which
  is not among the source files; it is the first argument. \<^verbatim>\<open>_retries++ > MAX_RETRIES\<close>
  compares the value before the increment.
\<close>

definition process_timeout :: "nat \<Rightarrow> MissionImpl \<Rightarrow> MissionImpl \<times> event list" where
  "process_timeout MAX_RETRIES s =
     (if activity s = SET_MISSION then (s\<lparr> activity := NONE \<rparr>, [])
      else if activity s = GET_MISSION then
        (if retries s > MAX_RETRIES then
           (s\<lparr> activity := NONE, retries := 0 \<rparr>,
            report_mission_result (result_callback s) TIMEOUT)
         else
           (let s1 = s\<lparr> retries := retries s + 1 \<rparr>
            in (s1, RegisterTimeout RETRY_TIMEOUT_S # download_next_mission_item s1)))
      else (s, []))"

subsection \<open>Sequences of public operations\<close>

text \<open>
  A call of one of the five public asynchronous operations, with its arguments and with
  what the parent answers during the call.
\<close>

datatype operation =
  Upload "MissionItem list" "callback option" bool bool
  | Download "callback option" bool
  | Start "callback option"
  | Pause "callback option"
  | SetCurrent int "callback option" bool

fun run_operation :: "operation \<Rightarrow> MissionImpl \<Rightarrow> MissionImpl \<times> event list" where
  "run_operation (Upload items callback supports_int send_ok) s =
     upload_mission_async items callback supports_int send_ok s"
| "run_operation (Download callback send_ok) s = download_mission_async callback send_ok s"
| "run_operation (Start callback) s = start_mission_async callback s"
| "run_operation (Pause callback) s = pause_mission_async callback s"
| "run_operation (SetCurrent current callback send_ok) s =
     set_current_mission_item_async current callback send_ok s"

fun operation_callback :: "operation \<Rightarrow> callback option" where
  "operation_callback (Upload items callback supports_int send_ok) = callback"
| "operation_callback (Download callback send_ok) = callback"
| "operation_callback (Start callback) = callback"
| "operation_callback (Pause callback) = callback"
| "operation_callback (SetCurrent current callback send_ok) = callback"

text \<open>Running a list of operations one after the other; the events are concatenated.\<close>

fun run_operations :: "operation list \<Rightarrow> MissionImpl \<Rightarrow> MissionImpl \<times> event list" where
  "run_operations [] s = (s, [])"
| "run_operations (op # ops) s =
     (let (s1, ev1) = run_operation op s;
          (s2, ev2) = run_operations ops s1
      in (s2, ev1 @ ev2))"

section \<open>Observations and example inputs\<close>

text \<open>
  The values \<^verbatim>\<open>_last_reached_mavlink_mission_item\<close> takes while a list of
  MISSION_ITEM_REACHED messages is processed one after the other.
\<close>

fun reached_trace :: "16 word list \<Rightarrow> MissionImpl \<Rightarrow> int list" where
  "reached_trace [] s = []"
| "reached_trace (sq # sqs) s =
     (let s' = fst (process_mission_item_reached sq s)
      in sint (last_reached_mavlink_mission_item s') # reached_trace sqs s')"

text \<open>
  What a caller sees of an operation that is refused with BUSY: its callback, if it gave
  one, is called once with BUSY (a download's callback also gets the empty item list).
\<close>

fun busy_report :: "operation \<Rightarrow> event list" where
  "busy_report (Download callback send_ok) =
     (case callback of None \<Rightarrow> [] | Some c \<Rightarrow> [ItemsAndResultCallback c BUSY []])"
| "busy_report (Upload items callback supports_int send_ok) =
     (case callback of None \<Rightarrow> [] | Some c \<Rightarrow> [ResultCallback c BUSY])"
| "busy_report (Start callback) =
     (case callback of None \<Rightarrow> [] | Some c \<Rightarrow> [ResultCallback c BUSY])"
| "busy_report (Pause callback) =
     (case callback of None \<Rightarrow> [] | Some c \<Rightarrow> [ResultCallback c BUSY])"
| "busy_report (SetCurrent current callback send_ok) =
     (case callback of None \<Rightarrow> [] | Some c \<Rightarrow> [ResultCallback c BUSY])"

text \<open>A user item that is a plain waypoint: position, altitude, fly-through, nothing else.\<close>

definition waypoint :: "rat \<Rightarrow> rat \<Rightarrow> rat \<Rightarrow> bool \<Rightarrow> MissionItem" where
  "waypoint lat lon alt fly =
     new_MissionItem\<lparr> latitude_deg := Finite lat, longitude_deg := Finite lon,
                      relative_altitude_m := Finite alt, fly_through := fly \<rparr>"

text \<open>
  The engine after a fresh instance has accepted the upload of two waypoints (the first
  scenario of the specification) with callback 0: it is waiting for the vehicle.
\<close>

definition example_uploading :: MissionImpl where
  "example_uploading =
     fst (upload_mission_async [waypoint (473977 / 10000) (85456 / 10000) 10 True,
                                waypoint (47398 / 1000) (8546 / 1000) 10 True]
            (Some 0) True True initial_MissionImpl)"

text \<open>A user item with all five kinds of sub-item: position, speed, gimbal, loiter, camera.\<close>

definition example_full_item :: MissionItem where
  "example_full_item =
     (waypoint (473977 / 10000) (85456 / 10000) 10 False)
       \<lparr> speed_m_s := Finite 5, gimbal_pitch_deg := Finite (- 45), loiter_time_s := Finite 3,
         camera_action := TAKE_PHOTO \<rparr>"

text \<open>A MISSION_ACK addressed to the ground station that accepts the upload.\<close>

definition example_accepted_ack :: mavlink_mission_ack where
  "example_accepted_ack =
     \<lparr> ack_target_system = GCSClient_system_id, ack_target_component = GCSClient_component_id,
       ack_type = MAV_MISSION_ACCEPTED \<rparr>"

text \<open>
  A second upload on the same engine: the upload of \<open>example_uploading\<close> is accepted by
  the vehicle, then \<open>items\<close> are uploaded with callback 1.
\<close>

definition example_reupload :: "MissionItem list \<Rightarrow> MissionImpl" where
  "example_reupload items =
     fst (upload_mission_async items (Some 1) True True
            (fst (process_mission_ack example_accepted_ack example_uploading)))"

text \<open>
  An idle engine with a mission on board: a fresh instance uploads \<open>example_full_item\<close>
  and a plain waypoint, and the vehicle accepts.
\<close>

definition example_idle :: MissionImpl where
  "example_idle =
     fst (process_mission_ack example_accepted_ack
            (fst (upload_mission_async [example_full_item, waypoint 1 2 3 True]
                    (Some 0) True True initial_MissionImpl)))"

text \<open>
  A download under way: on engine \<open>s\<close> a download is requested with callback 8 and the
  vehicle announces two items.
\<close>

definition example_downloading :: "MissionImpl \<Rightarrow> MissionImpl" where
  "example_downloading s =
     fst (process_mission_count 2 (fst (download_mission_async (Some 8) True s)))"

text \<open>The timeout firing \<open>n\<close> times in a row, with the events of all firings.\<close>

fun process_timeouts :: "nat \<Rightarrow> nat \<Rightarrow> MissionImpl \<Rightarrow> MissionImpl \<times> event list" where
  "process_timeouts MAX_RETRIES 0 s = (s, [])"
| "process_timeouts MAX_RETRIES (Suc n) s =
     (let (s1, ev1) = process_timeout MAX_RETRIES s;
          (s2, ev2) = process_timeouts MAX_RETRIES n s1
      in (s2, ev1 @ ev2))"

text \<open>
  The shape a \<^verbatim>\<open>std::map<int, int>\<close> filled by the translation has: keys strictly
  ascending in iteration order, none negative.
\<close>

definition index_map_ok :: "index_map \<Rightarrow> bool" where
  "index_map_ok m = (sorted_wrt (<) (map fst m) \<and> list_all (\<lambda>k. 0 \<le> k) (map fst m))"

text \<open>
  What the loop of the translation keeps true when it starts from an empty index map,
  before user item \<open>i\<close>: the keys are the positions of the messages, the values are
  non-decreasing and are indices of user items already visited.
\<close>

definition fresh_ok :: "nat \<Rightarrow> assembly \<Rightarrow> bool" where
  "fresh_ok i a =
     (map fst (a_indices a) = map int [0..<length (a_messages a)] \<and>
      sorted (map snd (a_indices a)) \<and>
      list_all (\<lambda>v. 0 \<le> v \<and> v < int i) (map snd (a_indices a)))"

text \<open>The current flags of a message vector: 1 on the first message, 0 on all others.\<close>

definition flags_ok :: "mavlink_mission_item_int list \<Rightarrow> bool" where
  "flags_ok ms =
     (map item_current ms = replicate (min 1 (length ms)) 1 @ replicate (length ms - 1) 0)"

subsection \<open>Translating plain waypoints there and back\<close>

text \<open>A finite value of magnitude at most \<open>b\<close>.\<close>

fun float_abs_le :: "float \<Rightarrow> rat \<Rightarrow> bool" where
  "float_abs_le (Finite r) b = (\<bar>r\<bar> \<le> b)"
| "float_abs_le PosInf b = False"
| "float_abs_le NegInf b = False"
| "float_abs_le NaN b = False"

text \<open>Two finite values that differ by at most \<open>eps\<close>.\<close>

fun float_within :: "rat \<Rightarrow> float \<Rightarrow> float \<Rightarrow> bool" where
  "float_within eps (Finite a) (Finite b) = (\<bar>b - a\<bar> \<le> eps)"
| "float_within eps _ _ = False"

text \<open>
  A user item that is only a waypoint with a valid position: latitude within 90 degrees
  and longitude within 180 degrees of zero, a finite altitude, and no speed, gimbal,
  loiter or camera setting.
\<close>

definition is_plain_waypoint :: "MissionItem \<Rightarrow> bool" where
  "is_plain_waypoint item =
     (float_abs_le (latitude_deg item) 90 \<and> float_abs_le (longitude_deg item) 180 \<and>
      isfinite (relative_altitude_m item) \<and>
      \<not> isfinite (speed_m_s item) \<and> \<not> isfinite (gimbal_pitch_deg item) \<and>
      \<not> isfinite (gimbal_yaw_deg item) \<and> \<not> isfinite (loiter_time_s item) \<and>
      camera_action item = CameraAction_NONE)"

text \<open>Equality of two user items on position, relative altitude and fly-through.\<close>

definition same_waypoint :: "MissionItem \<Rightarrow> MissionItem \<Rightarrow> bool" where
  "same_waypoint a b =
     (latitude_deg a = latitude_deg b \<and> longitude_deg a = longitude_deg b \<and>
      relative_altitude_m a = relative_altitude_m b \<and> fly_through a = fly_through b)"

text \<open>
  Two user items with the same relative altitude and fly-through flag whose latitudes
  and longitudes are finite and differ by at most 1e-7 degrees.
\<close>

definition close_waypoint :: "MissionItem \<Rightarrow> MissionItem \<Rightarrow> bool" where
  "close_waypoint a b =
     (float_within (1 / 10000000) (latitude_deg a) (latitude_deg b) \<and>
      float_within (1 / 10000000) (longitude_deg a) (longitude_deg b) \<and>
      relative_altitude_m b = relative_altitude_m a \<and> fly_through b = fly_through a)"

text \<open>
  The round trip: the user items are translated by \<^verbatim>\<open>assemble_mavlink_messages\<close> on a
  fresh engine, and the wire items it produced are handed, as the items collected by a
  download with callback 8, to \<^verbatim>\<open>assemble_mission_items\<close>.
\<close>

definition round_trip :: "MissionItem list \<Rightarrow> MissionImpl \<times> event list" where
  "round_trip U =
     (let wire = mavlink_mission_item_messages
                   (assemble_mavlink_messages (copy_mission_item_vector U initial_MissionImpl))
      in assemble_mission_items
           (initial_MissionImpl\<lparr> activity := GET_MISSION,
                                  mavlink_mission_items_downloaded := wire,
                                  mission_items_and_result_callback := Some 8 \<rparr>))"

text \<open>
  What the wire carries of a waypoint: the position as decoded from the two \<^verbatim>\<open>int32_t\<close>
  coordinates emitted for it, its relative altitude and its fly-through flag.
\<close>

definition as_transmitted :: "MissionItem \<Rightarrow> MissionItem" where
  "as_transmitted item =
     new_MissionItem\<lparr> latitude_deg := int32_to_degrees (get_mavlink_x item),
                      longitude_deg := int32_to_degrees (get_mavlink_y item),
                      relative_altitude_m := relative_altitude_m item,
                      fly_through := fly_through item \<rparr>"

text \<open>A wire item that is the NAV_WAYPOINT item of a user item.\<close>

definition encodes :: "MissionItem \<Rightarrow> mavlink_mission_item_int \<Rightarrow> bool" where
  "encodes item w =
     (item_command w = MAV_CMD_NAV_WAYPOINT \<and> item_frame w = MAV_FRAME_GLOBAL_RELATIVE_ALT_INT \<and>
      item_x w = get_mavlink_x item \<and> item_y w = get_mavlink_y item \<and>
      item_z w = get_mavlink_z item \<and> item_param1 w = get_mavlink_param1 item)"

text \<open>The user item \<^verbatim>\<open>assemble_mission_items\<close> builds from one NAV_WAYPOINT wire item.\<close>

definition decode_waypoint :: "mavlink_mission_item_int \<Rightarrow> MissionItem" where
  "decode_waypoint w =
     new_MissionItem\<lparr> latitude_deg := int32_to_degrees (item_x w),
                      longitude_deg := int32_to_degrees (item_y w),
                      relative_altitude_m := item_z w,
                      fly_through := \<not> float_gt_zero (item_param1 w) \<rparr>"

subsection \<open>Requests and inbound events in one sequence\<close>

text \<open>
  Everything that can happen to the engine: a call of a public operation, or the parent
  calling one of the handlers registered in \<^verbatim>\<open>init\<close> (with the decoded message), the
  completion handler of a flight-mode command, or the timeout handler.
\<close>

datatype input =
  Operation operation
  | Mission_request
  | Mission_request_int mavlink_mission_request_int
  | Mission_ack mavlink_mission_ack
  | Mission_current "16 word"
  | Mission_item_reached "16 word"
  | Mission_count "16 word"
  | Mission_item_int mavlink_mission_item_int
  | Command_result bool "callback option"
  | Timeout

text \<open>The engine's reaction to one of them; \<open>MAX_RETRIES\<close> is passed on to \<open>process_timeout\<close>.\<close>

fun process_input :: "nat \<Rightarrow> input \<Rightarrow> MissionImpl \<Rightarrow> MissionImpl \<times> event list" where
  "process_input MAX_RETRIES (Operation op) s = run_operation op s"
| "process_input MAX_RETRIES Mission_request s = process_mission_request s"
| "process_input MAX_RETRIES (Mission_request_int m) s = process_mission_request_int m s"
| "process_input MAX_RETRIES (Mission_ack m) s = process_mission_ack m s"
| "process_input MAX_RETRIES (Mission_current sq) s = process_mission_current sq s"
| "process_input MAX_RETRIES (Mission_item_reached sq) s = process_mission_item_reached sq s"
| "process_input MAX_RETRIES (Mission_count n) s = process_mission_count n s"
| "process_input MAX_RETRIES (Mission_item_int m) s = process_mission_item_int m s"
| "process_input MAX_RETRIES (Command_result command_ok callback) s =
     receive_command_result command_ok callback s"
| "process_input MAX_RETRIES Timeout s = process_timeout MAX_RETRIES s"

text \<open>A sequence of them, one after the other, with the events of each.\<close>

fun process_inputs ::
  "nat \<Rightarrow> input list \<Rightarrow> MissionImpl \<Rightarrow> MissionImpl \<times> event list list" where
  "process_inputs MAX_RETRIES [] s = (s, [])"
| "process_inputs MAX_RETRIES (i # is) s =
     (let (s1, ev) = process_input MAX_RETRIES i s;
          (s2, evs) = process_inputs MAX_RETRIES is s1
      in (s2, ev # evs))"

text \<open>
  The inputs other than the three that can end an activity of an engine that is
  uploading: a MISSION_ACK that is addressed to the ground station and says ACCEPTED, a
  MISSION_ITEM_INT (it can complete an assembly, which ends with \<^verbatim>\<open>_activity = NONE\<close>),
  and the timeout.
\<close>

fun leaves_upload_pending :: "input \<Rightarrow> bool" where
  "leaves_upload_pending (Mission_ack m) =
     (\<not> ((ack_target_system m = GCSClient_system_id \<or>
           ack_target_component m = GCSClient_component_id) \<and>
          ack_type m = MAV_MISSION_ACCEPTED))"
| "leaves_upload_pending (Mission_item_int m) = False"
| "leaves_upload_pending Timeout = False"
| "leaves_upload_pending (Operation op) = True"
| "leaves_upload_pending Mission_request = True"
| "leaves_upload_pending (Mission_request_int m) = True"
| "leaves_upload_pending (Mission_current sq) = True"
| "leaves_upload_pending (Mission_item_reached sq) = True"
| "leaves_upload_pending (Mission_count n) = True"
| "leaves_upload_pending (Command_result command_ok callback) = True"

text \<open>The events of an input are those of a refusal with BUSY, if it is a request.\<close>

fun answered_busy :: "input \<Rightarrow> event list \<Rightarrow> bool" where
  "answered_busy (Operation op) ev = (ev = busy_report op)"
| "answered_busy i ev = True"

text \<open>A MISSION_ACK addressed to the ground station that refuses the upload for lack of space.\<close>

definition example_no_space_ack :: mavlink_mission_ack where
  "example_no_space_ack =
     \<lparr> ack_target_system = GCSClient_system_id, ack_target_component = GCSClient_component_id,
       ack_type = MAV_MISSION_NO_SPACE \<rparr>"

section \<open>Facts about 32-bit integers\<close>

lemma sint_32_cases:
  fixes w :: "32 word"
  shows "sint w = uint w \<or> sint w = uint w - 4294967296"
proof -
  have "sint w = take_bit 32 (uint w) - 2 ^ 32 * of_bool (bit (uint w) 31)"
    using signed_take_bit_eq_take_bit_minus [of 31 "uint w"] by (simp add: sint_uint)
  moreover have "take_bit 32 (uint w) = uint w"
    using uint_lt2p [of w] by (simp add: take_bit_int_eq_self)
  ultimately show ?thesis by (cases "bit (uint w) 31") simp_all
qed

lemma sint_nonneg_uint:
  fixes w :: "32 word"
  assumes "0 \<le> sint w"
  shows "sint w = uint w"
  using assms sint_32_cases [of w] uint_lt2p [of w] by auto

lemma uint_small_sint:
  fixes w :: "32 word"
  assumes "uint w < 2147483648"
  shows "sint w = uint w"
  using assms sint_32_cases [of w] sint_ge [of w] by auto

lemma unat_succ_nonneg:
  fixes w :: "32 word"
  assumes "0 \<le> sint w"
  shows "unat (w + 1) = n \<longleftrightarrow> sint w + 1 = int n"
proof -
  have u: "sint w = uint w" by (rule sint_nonneg_uint [OF assms])
  have "uint w < 2147483648" using sint_lt [of w] u by simp
  then have "uint (w + 1) = uint w + 1"
    by (simp add: uint_word_ariths)
  then have "int (unat (w + 1)) = sint w + 1" using u by simp
  then show ?thesis by linarith
qed

lemma sint_ucast_16:
  fixes sq :: "16 word"
  shows "sint (ucast sq :: 32 word) = uint sq"
proof -
  have "uint (ucast sq :: 32 word) = uint sq"
    by (simp add: uint_up_ucast is_up)
  moreover have "uint sq < 65536" using uint_lt2p [of sq] by simp
  ultimately show ?thesis using uint_small_sint [of "ucast sq"] by simp
qed

section \<open>Facts about floating-point rounding\<close>

lemma floor_log2_bounds:
  assumes "0 < q"
  shows "2 powi floor_log2 q \<le> q" and "q < 2 powi (floor_log2 q + 1)"
proof -
  have "2 powi floor_log2 q \<le> q \<and> q < 2 powi (floor_log2 q + 1)"
  proof (cases "1 \<le> q")
    case True
    define n where "n = \<lfloor>q\<rfloor>"
    have n: "0 < n" "of_int n \<le> q" "q < of_int n + 1"
      using True by (auto simp: n_def) linarith+
    from bitlen_bounds [OF n(1)] have b: "2 ^ nat (bitlen n - 1) \<le> n" "n < 2 ^ nat (bitlen n)"
      by auto
    have pos: "1 \<le> bitlen n" using n(1) by (auto simp: bitlen_alt_def)
    have e: "floor_log2 q = bitlen n - 1" using True by (simp add: floor_log2_def n_def)
    have "(2::rat) powi (bitlen n - 1) = 2 ^ nat (bitlen n - 1)"
      using pos by (simp add: power_int_def)
    also have "\<dots> = of_int (2 ^ nat (bitlen n - 1))" by simp
    also have "\<dots> \<le> of_int n" using b(1) by (simp only: of_int_le_iff)
    finally have lo: "2 powi (bitlen n - 1) \<le> q" using n(2) by simp
    have "n + 1 \<le> 2 ^ nat (bitlen n)" using b(2) by simp
    then have "(of_int (n + 1) :: rat) \<le> of_int (2 ^ nat (bitlen n))" by (simp only: of_int_le_iff)
    then have "q < 2 ^ nat (bitlen n)" using n(3) by simp
    moreover have "(2::rat) powi (bitlen n - 1 + 1) = 2 ^ nat (bitlen n)"
      using pos by (simp add: power_int_def)
    ultimately show ?thesis using lo e by simp
  next
    case False
    define t where "t = 1 / q"
    define n where "n = \<lceil>t\<rceil>"
    have t: "1 < t" using False assms by (simp add: t_def)
    have n: "2 \<le> n" "t \<le> of_int n" "of_int n - 1 < t"
      using t by (auto simp: n_def) linarith+
    define L where "L = bitlen (n - 1)"
    have n1: "0 < n - 1" using n(1) by simp
    from bitlen_bounds [OF n1] have b: "2 ^ nat (L - 1) \<le> n - 1" "n - 1 < 2 ^ nat L"
      by (auto simp: L_def)
    have pos: "1 \<le> L" using n1 by (auto simp: bitlen_alt_def L_def)
    have e: "floor_log2 q = - L" using False by (simp add: floor_log2_def n_def t_def L_def)
    have "n \<le> 2 ^ nat L" using b(2) by simp
    then have "(of_int n :: rat) \<le> of_int (2 ^ nat L)" by (simp only: of_int_le_iff)
    then have "(of_int n :: rat) \<le> 2 ^ nat L" by simp
    then have up: "t \<le> 2 ^ nat L" using n(2) by linarith
    have "(of_int (2 ^ nat (L - 1)) :: rat) \<le> of_int (n - 1)" using b(1) by (simp only: of_int_le_iff)
    then have lo: "2 ^ nat (L - 1) < t" using n(3) by simp
    have q: "q = 1 / t" using assms by (simp add: t_def)
    have "(2::rat) powi (- L) = 1 / 2 ^ nat L"
      using pos by (simp add: power_int_def field_simps)
    also have "\<dots> \<le> 1 / t" using up t by (simp add: frac_le)
    finally have A: "2 powi (- L) \<le> q" using q by simp
    have "1 / t < 1 / 2 ^ nat (L - 1)" using lo by (simp add: frac_less2)
    moreover have "(2::rat) powi (- L + 1) = 1 / 2 ^ nat (L - 1)"
    proof (cases "L = 1")
      case True then show ?thesis by simp
    next
      case False
      then have "- L + 1 < 0" using pos by simp
      then show ?thesis
        by (simp add: power_int_def field_simps) 
    qed
    ultimately have B: "q < 2 powi (- L + 1)" using q by simp
    show ?thesis using A B e by simp
  qed
  then show "2 powi floor_log2 q \<le> q" and "q < 2 powi (floor_log2 q + 1)" by simp_all
qed

lemma pow2_less_imp_less:
  assumes "(2::rat) powi a < 2 powi b"
  shows "a < b"
proof (rule ccontr)
  assume "\<not> a < b"
  then have "b \<le> a" by simp
  then have "(2::rat) powi b \<le> 2 powi a" by (intro power_int_increasing) auto
  with assms show False by simp
qed

lemma floor_log2_ge:
  assumes "0 < q" and "2 powi a \<le> q"
  shows "a \<le> floor_log2 q"
proof -
  have "(2::rat) powi a < 2 powi (floor_log2 q + 1)"
    using assms(2) floor_log2_bounds(2) [OF assms(1)] by simp
  then have "a < floor_log2 q + 1" by (rule pow2_less_imp_less)
  then show ?thesis by simp
qed

lemma floor_log2_less:
  assumes "0 < q" and "q < 2 powi b"
  shows "floor_log2 q < b"
proof -
  have "(2::rat) powi floor_log2 q < 2 powi b"
    using assms(2) floor_log2_bounds(1) [OF assms(1)] by simp
  then show ?thesis by (rule pow2_less_imp_less)
qed

lemma round_half_even_error: "\<bar>of_int (round_half_even y) - y\<bar> \<le> 1 / 2"
proof -
  have "of_int \<lfloor>y\<rfloor> \<le> y" "y < of_int \<lfloor>y\<rfloor> + 1" by linarith+
  then show ?thesis by (auto simp: round_half_even_def Let_def)
qed

lemma round_half_even_le:
  assumes "y \<le> of_int n"
  shows "round_half_even y \<le> n"
proof -
  have f: "\<lfloor>y\<rfloor> \<le> n" using assms by (simp add: floor_le_iff) 
  show ?thesis
  proof (cases "\<lfloor>y\<rfloor> = n")
    case True
    then have "y - of_int \<lfloor>y\<rfloor> \<le> 0" using assms by simp
    then show ?thesis using True by (simp add: round_half_even_def Let_def)
  next
    case False
    then have "\<lfloor>y\<rfloor> + 1 \<le> n" using f by simp
    then show ?thesis by (auto simp: round_half_even_def Let_def)
  qed
qed


lemma ieee_round_error:
  assumes "q \<noteq> 0" and "max (floor_log2 \<bar>q\<bar>) emin < emax"
  shows "\<exists>r. ieee_round p emin emax q = Finite r \<and>
             \<bar>r - q\<bar> \<le> 2 powi (max (floor_log2 \<bar>q\<bar>) emin - int p)"
proof -
  define e where "e = max (floor_log2 \<bar>q\<bar>) emin"
  define ulp :: rat where "ulp = 2 powi (e - int p + 1)"
  define m where "m = round_half_even (\<bar>q\<bar> / ulp)"
  define r where "r = of_int m * ulp"
  have aq: "0 < \<bar>q\<bar>" using assms(1) by simp
  have ulp_pos: "0 < ulp" by (simp add: ulp_def)
  have half: "ulp / 2 = 2 powi (e - int p)"
    by (simp add: ulp_def power_int_add)
  have "\<bar>of_int m - \<bar>q\<bar> / ulp\<bar> \<le> 1 / 2"
    unfolding m_def by (rule round_half_even_error)
  then have "\<bar>of_int m - \<bar>q\<bar> / ulp\<bar> * ulp \<le> 1 / 2 * ulp"
    using ulp_pos by (intro mult_right_mono) auto
  moreover have "\<bar>of_int m - \<bar>q\<bar> / ulp\<bar> * ulp = \<bar>r - \<bar>q\<bar>\<bar>"
  proof -
    have "\<bar>of_int m - \<bar>q\<bar> / ulp\<bar> * ulp = \<bar>of_int m - \<bar>q\<bar> / ulp\<bar> * \<bar>ulp\<bar>"
      using ulp_pos by simp
    also have "\<dots> = \<bar>(of_int m - \<bar>q\<bar> / ulp) * ulp\<bar>" by (simp only: abs_mult)
    also have "(of_int m - \<bar>q\<bar> / ulp) * ulp = r - \<bar>q\<bar>"
      using ulp_pos by (simp add: r_def left_diff_distrib)
    finally show ?thesis .
  qed
  ultimately have err: "\<bar>r - \<bar>q\<bar>\<bar> \<le> 2 powi (e - int p)" using half by simp
  have "\<bar>q\<bar> < 2 powi (floor_log2 \<bar>q\<bar> + 1)" by (rule floor_log2_bounds(2) [OF aq])
  also have "\<dots> \<le> 2 powi (e + 1)" by (intro power_int_increasing) (auto simp: e_def)
  finally have qlt: "\<bar>q\<bar> < 2 powi (e + 1)" .
  have split: "(2::rat) powi (e + 1) = 2 ^ p * ulp"
  proof -
    have "(2::rat) powi (e + 1) = 2 powi (int p + (e - int p + 1))" by simp
    also have "\<dots> = 2 powi int p * 2 powi (e - int p + 1)"
      by (subst power_int_add) auto
    finally show ?thesis by (simp add: ulp_def)
  qed
  have "\<bar>q\<bar> / ulp < 2 ^ p" using qlt ulp_pos by (simp add: split pos_divide_less_eq)
  then have "\<bar>q\<bar> / ulp \<le> of_int (2 ^ p)" by simp
  then have "m \<le> 2 ^ p" unfolding m_def by (rule round_half_even_le)
  then have "(of_int m :: rat) \<le> of_int (2 ^ p)" by (simp only: of_int_le_iff)
  then have "r \<le> 2 ^ p * ulp" unfolding r_def using ulp_pos by (intro mult_right_mono) auto
  also have "\<dots> = 2 powi (e + 1)" by (simp add: split)
  also have "\<dots> < 2 powi (emax + 1)"
    using assms(2) by (intro power_int_strict_increasing) (auto simp: e_def)
  finally have no_overflow: "\<not> 2 powi (emax + 1) \<le> r" by simp
  have val: "ieee_round p emin emax q = Finite (sgn q * r)"
    using assms(1) no_overflow
    by (simp add: ieee_round_def Let_def e_def [symmetric] ulp_def [symmetric]
        m_def [symmetric] r_def [symmetric])
  have "\<bar>sgn q * r - q\<bar> = \<bar>sgn q * (r - \<bar>q\<bar>)\<bar>"
    by (simp add: right_diff_distrib sgn_mult_abs)
  also have "\<dots> = \<bar>r - \<bar>q\<bar>\<bar>" using assms(1) by (simp add: abs_mult abs_sgn_eq)
  finally have "\<bar>sgn q * r - q\<bar> \<le> 2 powi (e - int p)" using err by simp
  then show ?thesis using val by (simp add: e_def)
qed

section \<open>Completion of a mission\<close>

text \<open>
  C8. \<^verbatim>\<open>is_mission_finished()\<close> returns true if and only if the last current sequence
  number is not negative, the last reached sequence number is not negative, the cached
  vector of wire items is not empty, and the last reached sequence number plus one equals
  the number of cached wire items. The two counters are read as signed 32-bit integers;
  the equivalence holds for every state, also at the largest \<^verbatim>\<open>int\<close>.
\<close>

theorem is_mission_finished_iff:
  "is_mission_finished s \<longleftrightarrow>
     (0 \<le> sint (last_current_mavlink_mission_item s) \<and>
      0 \<le> sint (last_reached_mavlink_mission_item s) \<and>
      0 < length (mavlink_mission_item_messages s) \<and>
      sint (last_reached_mavlink_mission_item s) + 1
        = int (length (mavlink_mission_item_messages s)))"
proof (cases "0 \<le> sint (last_reached_mavlink_mission_item s)")
  case True
  then show ?thesis
    unfolding is_mission_finished_def by (auto simp: unat_succ_nonneg)
next
  case False
  then show ?thesis unfolding is_mission_finished_def by simp
qed

section \<open>Progress\<close>

lemma process_mission_item_reached_value:
  "sint (last_reached_mavlink_mission_item (fst (process_mission_item_reached sq s))) = uint sq"
  unfolding process_mission_item_reached_def
  by (auto simp: Let_def sint_ucast_16)

lemma reached_trace_eq: "reached_trace sqs s = map uint sqs"
  by (induction sqs arbitrary: s) (simp_all add: Let_def process_mission_item_reached_value)

text \<open>
  C6, as the code has it. After every inbound MISSION_ITEM_REACHED message the last
  reached sequence number is the sequence number of that message: the values it takes
  over a run are exactly the sequence numbers the vehicle reports, in the order of
  arrival. It is therefore non-decreasing exactly when the reported sequence numbers are;
  the handler has no guard that would keep it from going down. An upload acknowledged
  with ACCEPTED resets it to -1.
\<close>

theorem last_reached_follows_messages:
  "reached_trace sqs s = map uint sqs \<and>
   (sorted (reached_trace sqs s) \<longleftrightarrow> sorted (map uint sqs)) \<and>
   sint (last_reached_mavlink_mission_item
           (fst (process_mission_ack
                   \<lparr> ack_target_system = GCSClient_system_id,
                     ack_target_component = c,
                     ack_type = MAV_MISSION_ACCEPTED \<rparr>
                   (s\<lparr> activity := SET_MISSION \<rparr>)))) = - 1"
  by (simp add: reached_trace_eq process_mission_ack_def)

text \<open>
  C6 as stated fails: on a fresh engine the vehicle reports item 5 and then item 2 as
  reached, and the last reached sequence number goes from 5 down to 2.
\<close>

theorem last_reached_can_decrease:
  "reached_trace [5, 2] initial_MissionImpl = [5, 2] \<and>
   \<not> sorted (reached_trace [5, 2] initial_MissionImpl)"
  by (simp add: reached_trace_eq)

section \<open>Evaluating the translation on concrete items\<close>

lemmas assemble_eval =
  assemble_mavlink_messages_def copy_mission_item_vector_def assemble_item_def
  add_position_def add_speed_def add_gimbal_def add_loiter_def add_camera_def
  is_position_finite_def current_flag_def mavlink_msg_mission_item_int_pack_def
  waypoint_def new_MissionItem_def Let_def

section \<open>One activity at a time\<close>

lemma example_uploading_activity: "activity example_uploading = SET_MISSION"
  by (simp add: example_uploading_def upload_mission_async_def initial_MissionImpl_def Let_def)

lemma example_uploading_items: "mission_items example_uploading \<noteq> []"
  by (simp add: example_uploading_def upload_mission_async_def initial_MissionImpl_def Let_def
      assemble_mavlink_messages_def copy_mission_item_vector_def)

lemma example_uploading_callback: "result_callback example_uploading = Some 0"
  by (simp add: example_uploading_def upload_mission_async_def initial_MissionImpl_def Let_def)

lemma run_operation_busy:
  assumes "activity s \<noteq> NONE"
  shows "snd (run_operation op s) = busy_report op"
    and "(fst (run_operation op s))\<lparr> mission_items := mission_items s \<rparr> = s"
    and "\<not> (\<exists>c so. op = Download (Some c) so) \<Longrightarrow> fst (run_operation op s) = s"
  using assms
  by (cases op; auto simp: upload_mission_async_def download_mission_async_def
      start_mission_async_def pause_mission_async_def set_current_mission_item_async_def
      report_mission_result_def report_mission_items_and_result_def split: option.splits)+

lemma run_operations_busy:
  assumes "activity s \<noteq> NONE"
  shows "snd (run_operations ops s) = concat (map busy_report ops) \<and>
         activity (fst (run_operations ops s)) = activity s"
  using assms
proof (induction ops arbitrary: s)
  case Nil
  then show ?case by simp
next
  case (Cons op ops)
  obtain s1 ev1 where r: "run_operation op s = (s1, ev1)" by (cases "run_operation op s")
  have "activity s1 = activity (s1\<lparr> mission_items := mission_items s \<rparr>)" by simp
  also have "\<dots> = activity s"
    using run_operation_busy(2) [OF Cons.prems, of op] r by simp
  finally have a1: "activity s1 = activity s" .
  have e1: "ev1 = busy_report op" using run_operation_busy(1) [OF Cons.prems, of op] r by simp
  from Cons.IH [of s1] a1 Cons.prems show ?case
    by (auto simp: r e1 split: prod.splits)
qed

text \<open>
  What a request made while the activity is not \<open>NONE\<close> does: it calls its callback (if
  one was given) once with BUSY and leaves the activity as it is. Upload, start, pause and
  set-current leave the whole engine state as it is; a download leaves every member
  variable except the stored user mission items as it is.
\<close>

lemma refused_request_effects:
  assumes "activity s \<noteq> NONE"
  shows "snd (run_operation op s) = busy_report op \<and>
         activity (fst (run_operation op s)) = activity s \<and>
         (case op of
            Download callback send_ok \<Rightarrow>
              (fst (run_operation op s))\<lparr> mission_items := mission_items s \<rparr> = s
          | _ \<Rightarrow> fst (run_operation op s) = s)"
proof -
  have "activity (fst (run_operation op s))
          = activity ((fst (run_operation op s))\<lparr> mission_items := mission_items s \<rparr>)"
    by simp
  also have "\<dots> = activity s" using run_operation_busy(2) [OF assms, of op] by simp
  finally have "activity (fst (run_operation op s)) = activity s" .
  moreover have "case op of
            Download callback send_ok \<Rightarrow>
              (fst (run_operation op s))\<lparr> mission_items := mission_items s \<rparr> = s
          | _ \<Rightarrow> fst (run_operation op s) = s"
    using run_operation_busy(2,3) [OF assms, of op] by (cases op) auto
  ultimately show ?thesis using run_operation_busy(1) [OF assms, of op] by simp
qed

lemma example_uploading_total: "total_mission_items example_uploading = 2"
  by (simp add: total_mission_items_def example_uploading_def upload_mission_async_def
      initial_MissionImpl_def Let_def assemble_mavlink_messages_def copy_mission_item_vector_def)

lemma example_uploading_messages:
  "length (mavlink_mission_item_messages example_uploading) = 2"
  by (simp add: example_uploading_def upload_mission_async_def assemble_eval
      initial_MissionImpl_def)

text \<open>
  C1 on the code. While the upload of two waypoints is under way (two user items, two
  cached wire items), a start request is refused with BUSY and the engine state is what
  it was. A download request with a callback is refused with BUSY too, but the state is
  not what it was: the stored user mission items of the upload are gone, so the total
  number of mission items is 0 while the two wire items are still cached.
\<close>

theorem busy_download_changes_state:
  "activity example_uploading = SET_MISSION \<and>
   total_mission_items example_uploading = 2 \<and>
   run_operation (Start (Some 1)) example_uploading
     = (example_uploading, [ResultCallback 1 BUSY]) \<and>
   run_operation (Download (Some 2) True) example_uploading
     = (example_uploading\<lparr> mission_items := [] \<rparr>, [ItemsAndResultCallback 2 BUSY []]) \<and>
   fst (run_operation (Download (Some 2) True) example_uploading) \<noteq> example_uploading \<and>
   total_mission_items (fst (run_operation (Download (Some 2) True) example_uploading)) = 0 \<and>
   length (mavlink_mission_item_messages
             (fst (run_operation (Download (Some 2) True) example_uploading))) = 2"
proof -
  have d: "run_operation (Download (Some 2) True) example_uploading
     = (example_uploading\<lparr> mission_items := [] \<rparr>, [ItemsAndResultCallback 2 BUSY []])"
    by (simp add: download_mission_async_def example_uploading_activity
        report_mission_items_and_result_def)
  have s: "run_operation (Start (Some 1)) example_uploading
     = (example_uploading, [ResultCallback 1 BUSY])"
    by (simp add: start_mission_async_def example_uploading_activity report_mission_result_def)
  have n: "example_uploading\<lparr> mission_items := [] \<rparr> \<noteq> example_uploading"
  proof
    assume "example_uploading\<lparr> mission_items := [] \<rparr> = example_uploading"
    then have "mission_items (example_uploading\<lparr> mission_items := [] \<rparr>)
                 = mission_items example_uploading" by simp
    then show False using example_uploading_items by simp
  qed
  show ?thesis
    using d s n example_uploading_total example_uploading_messages
    by (simp add: example_uploading_activity total_mission_items_def)
qed

section \<open>An upload the vehicle refuses\<close>

lemma process_input_pending:
  assumes "activity s = SET_MISSION" and "leaves_upload_pending i"
  shows "activity (fst (process_input M i s)) = SET_MISSION"
    and "answered_busy i (snd (process_input M i s))"
proof -
  have ne: "activity s \<noteq> NONE" using assms(1) by simp
  show "activity (fst (process_input M i s)) = SET_MISSION"
  proof (cases i)
    case (Operation op)
    have "activity (fst (run_operation op s))
            = activity ((fst (run_operation op s))\<lparr> mission_items := mission_items s \<rparr>)"
      by simp
    also have "\<dots> = activity s" using run_operation_busy(2) [OF ne, of op] by simp
    finally show ?thesis using Operation assms(1) by simp
  next
    case (Mission_ack m)
    then show ?thesis using assms by (auto simp: process_mission_ack_def)
  next
    case (Mission_current sq)
    then show ?thesis using assms(1) by (simp add: process_mission_current_def Let_def)
  qed (use assms in \<open>auto simp: process_mission_request_def process_mission_request_int_def
        process_mission_item_reached_def process_mission_count_def
        receive_command_result_def Let_def\<close>)
  show "answered_busy i (snd (process_input M i s))"
    using run_operation_busy(1) [OF ne] by (cases i) simp_all
qed

lemma process_inputs_pending:
  assumes "activity s = SET_MISSION" and "list_all leaves_upload_pending is"
  shows "activity (fst (process_inputs M is s)) = SET_MISSION \<and>
         list_all2 answered_busy is (snd (process_inputs M is s))"
  using assms
proof (induction "is" arbitrary: s)
  case Nil
  then show ?case by simp
next
  case (Cons i "is")
  obtain s1 ev where p: "process_input M i s = (s1, ev)" by (cases "process_input M i s")
  from Cons.prems have k: "leaves_upload_pending i" "list_all leaves_upload_pending is"
    by simp_all
  from process_input_pending [OF Cons.prems(1) k(1), of M] p
  have a: "activity s1 = SET_MISSION" "answered_busy i ev" by simp_all
  from Cons.IH [OF a(1) k(2)] a(2) show ?case
    by (auto simp: p split: prod.splits)
qed

text \<open>
  C10, as the code has it. During an upload, a MISSION_ACK addressed to the ground
  station whose code is not ACCEPTED makes the engine report the error to the upload
  callback (TOO_MANY_MISSION_ITEMS for NO_SPACE, ERROR otherwise) and leaves the engine
  state, the activity included, as it was. From then on every upload, download, start,
  pause and set-current request is answered with BUSY and the activity stays that of the
  upload, for as long as none of these is processed: a MISSION_ACK addressed to the ground
  station that says ACCEPTED, a MISSION_ITEM_INT, the timeout. Requests and all other
  inbound messages may come in any number and order.
\<close>

theorem rejected_upload_stays_busy:
  assumes "activity s = SET_MISSION"
    and "ack_target_system ack = GCSClient_system_id \<or>
         ack_target_component ack = GCSClient_component_id"
    and "ack_type ack \<noteq> MAV_MISSION_ACCEPTED"
    and "list_all leaves_upload_pending inputs"
  shows "process_mission_ack ack s =
           (s, UnregisterTimeout # report_mission_result (result_callback s)
                 (if ack_type ack = MAV_MISSION_NO_SPACE then TOO_MANY_MISSION_ITEMS else ERROR)) \<and>
         activity (fst (process_inputs MAX_RETRIES inputs (fst (process_mission_ack ack s))))
           = SET_MISSION \<and>
         list_all2 answered_busy inputs
           (snd (process_inputs MAX_RETRIES inputs (fst (process_mission_ack ack s))))"
proof -
  have p: "process_mission_ack ack s =
           (s, UnregisterTimeout # report_mission_result (result_callback s)
                 (if ack_type ack = MAV_MISSION_NO_SPACE then TOO_MANY_MISSION_ITEMS else ERROR))"
    using assms(1-3) unfolding process_mission_ack_def by auto
  from process_inputs_pending [OF assms(1,4), of MAX_RETRIES] p show ?thesis by simp
qed

lemma no_space_not_accepted: "MAV_MISSION_NO_SPACE \<noteq> MAV_MISSION_ACCEPTED"
  by (simp add: MAV_MISSION_NO_SPACE_def MAV_MISSION_ACCEPTED_def)

text \<open>
  C10 at a concrete input: the upload of two waypoints is answered with NO_SPACE and the
  upload callback gets TOO_MANY_MISSION_ITEMS; one request of each kind, with a legacy
  request, a MISSION_CURRENT, a second NO_SPACE and a MISSION_COUNT in between, gets BUSY.
\<close>

theorem rejected_upload_stays_busy_witness:
  "process_mission_ack example_no_space_ack example_uploading
     = (example_uploading, [UnregisterTimeout, ResultCallback 0 TOO_MANY_MISSION_ITEMS]) \<and>
   activity (fst (process_inputs 3
      [Operation (Upload [] (Some 3) True True), Mission_request,
       Operation (Download (Some 4) True), Mission_current 1,
       Operation (Start (Some 5)), Mission_ack example_no_space_ack,
       Operation (Pause (Some 6)), Mission_count 3,
       Operation (SetCurrent 0 (Some 7) True)]
      (fst (process_mission_ack example_no_space_ack example_uploading)))) = SET_MISSION \<and>
   list_all2 answered_busy
      [Operation (Upload [] (Some 3) True True), Mission_request,
       Operation (Download (Some 4) True), Mission_current 1,
       Operation (Start (Some 5)), Mission_ack example_no_space_ack,
       Operation (Pause (Some 6)), Mission_count 3,
       Operation (SetCurrent 0 (Some 7) True)]
      (snd (process_inputs 3
      [Operation (Upload [] (Some 3) True True), Mission_request,
       Operation (Download (Some 4) True), Mission_current 1,
       Operation (Start (Some 5)), Mission_ack example_no_space_ack,
       Operation (Pause (Some 6)), Mission_count 3,
       Operation (SetCurrent 0 (Some 7) True)]
      (fst (process_mission_ack example_no_space_ack example_uploading))))"
proof -
  let ?is = "[Operation (Upload [] (Some 3) True True), Mission_request,
       Operation (Download (Some 4) True), Mission_current 1,
       Operation (Start (Some 5)), Mission_ack example_no_space_ack,
       Operation (Pause (Some 6)), Mission_count 3,
       Operation (SetCurrent 0 (Some 7) True)]"
  have h2: "ack_target_system example_no_space_ack = GCSClient_system_id \<or>
            ack_target_component example_no_space_ack = GCSClient_component_id"
    by (simp add: example_no_space_ack_def)
  have h3: "ack_type example_no_space_ack \<noteq> MAV_MISSION_ACCEPTED"
    by (simp add: example_no_space_ack_def no_space_not_accepted)
  have h4: "list_all leaves_upload_pending ?is"
    by (simp add: example_no_space_ack_def no_space_not_accepted)
  note r = rejected_upload_stays_busy [OF example_uploading_activity h2 h3 h4, of 3]
  from r have p: "process_mission_ack example_no_space_ack example_uploading
      = (example_uploading, [UnregisterTimeout, ResultCallback 0 TOO_MANY_MISSION_ITEMS])"
    by (simp add: example_uploading_callback report_mission_result_def example_no_space_ack_def)
  from r p show ?thesis by blast
qed

text \<open>
  C10 as stated fails: after the NO_SPACE a pause request gets BUSY, but then the vehicle
  sends ACCEPTED, the engine is idle again, and the next start request is not answered
  with BUSY: it is carried out.
\<close>

theorem rejected_upload_can_be_reset:
  "snd (process_inputs 3
          [Mission_ack example_no_space_ack, Operation (Pause (Some 4)),
           Mission_ack example_accepted_ack, Operation (Start (Some 5))]
          example_uploading)
     = [[UnregisterTimeout, ResultCallback 0 TOO_MANY_MISSION_ITEMS],
        [ResultCallback 4 BUSY],
        [UnregisterTimeout, ResultCallback 0 SUCCESS],
        [SetFlightMode FlightMode_MISSION (Some 5)]]"
  by (simp add: example_no_space_ack_def example_accepted_ack_def process_mission_ack_def
      no_space_not_accepted example_uploading_activity example_uploading_callback
      report_mission_result_def start_mission_async_def pause_mission_async_def)

section \<open>Upload translation\<close>

subsection \<open>The current flag\<close>

lemma flags_ok_Nil: "flags_ok []"
  by (simp add: flags_ok_def)

lemma flags_ok_snoc:
  assumes "flags_ok ms" and "item_current m = current_flag ms"
  shows "flags_ok (ms @ [m])"
proof (cases ms)
  case Nil
  then show ?thesis using assms by (simp add: flags_ok_def current_flag_def)
next
  case (Cons a list)
  then have "length ms - 1 = length list" by simp
  then show ?thesis using assms Cons
    by (simp add: flags_ok_def current_flag_def replicate_append_same)
qed

lemma pack_current [simp]:
  "item_current (mavlink_msg_mission_item_int_pack sq fr cmd cur auto p1 p2 p3 p4 vx vy vz) = cur"
  by (simp add: mavlink_msg_mission_item_int_pack_def)

lemma flags_ok_add_position: "flags_ok (a_messages a) \<Longrightarrow> flags_ok (a_messages (add_position i item a))"
  by (simp add: add_position_def Let_def flags_ok_snoc)

lemma flags_ok_add_speed: "flags_ok (a_messages a) \<Longrightarrow> flags_ok (a_messages (add_speed i item a))"
  by (simp add: add_speed_def Let_def flags_ok_snoc)

lemma flags_ok_add_gimbal: "flags_ok (a_messages a) \<Longrightarrow> flags_ok (a_messages (add_gimbal i item a))"
  by (simp add: add_gimbal_def Let_def flags_ok_snoc)

lemma flags_ok_add_loiter: "flags_ok (a_messages a) \<Longrightarrow> flags_ok (a_messages (add_loiter i item a))"
  by (simp add: add_loiter_def Let_def flags_ok_snoc split: option.splits)

lemma flags_ok_add_camera: "flags_ok (a_messages a) \<Longrightarrow> flags_ok (a_messages (add_camera i item a))"
  by (simp add: add_camera_def Let_def flags_ok_snoc split: prod.splits)

lemma flags_ok_assemble_item:
  "flags_ok (a_messages a) \<Longrightarrow> flags_ok (a_messages (assemble_item i item a))"
  unfolding assemble_item_def
  by (intro flags_ok_add_camera flags_ok_add_loiter flags_ok_add_gimbal flags_ok_add_speed
      flags_ok_add_position)

lemma flags_ok_assemble_loop:
  "flags_ok (a_messages a) \<Longrightarrow> flags_ok (a_messages (assemble_loop i items a))"
  by (induction items arbitrary: i a) (simp_all add: flags_ok_assemble_item)

lemma flags_ok_assemble_mavlink_messages:
  "flags_ok (mavlink_mission_item_messages (assemble_mavlink_messages s))"
  by (simp add: assemble_mavlink_messages_def Let_def flags_ok_assemble_loop flags_ok_Nil)

lemma flags_ok_first:
  assumes "flags_ok ms" and "ms \<noteq> []"
  shows "item_current (hd ms) = 1"
    and "\<forall>m \<in> set (tl ms). item_current m = 0"
    and "length (filter (\<lambda>m. item_current m = 1) ms) = 1"
proof -
  obtain a list where ms: "ms = a # list" using assms(2) by (cases ms) auto
  from assms(1) ms have c: "item_current a = 1" "map item_current list = replicate (length list) 0"
    by (simp_all add: flags_ok_def)
  show "item_current (hd ms) = 1" using c ms by simp
  have z: "\<forall>m \<in> set list. item_current m = 0"
  proof
    fix m assume "m \<in> set list"
    then have "item_current m \<in> set (map item_current list)" by simp
    then show "item_current m = 0" unfolding c(2) by simp
  qed
  then show "\<forall>m \<in> set (tl ms). item_current m = 0" using ms by simp
  have "filter (\<lambda>m. item_current m = 1) list = []"
    using z by (auto simp: filter_empty_conv)
  then show "length (filter (\<lambda>m. item_current m = 1) ms) = 1" using c ms by simp
qed

text \<open>
  C7. Whenever the upload translation emits at least one wire item, the first emitted
  wire item has current = 1, every later one has current = 0, and so exactly one wire item
  has current = 1. This holds for every list of user items, whatever kinds of sub-item
  (waypoint, speed, gimbal, loiter, camera) they give rise to, and for every engine state
  the translation starts from.
\<close>

theorem first_wire_item_is_current:
  "mavlink_mission_item_messages (assemble_mavlink_messages s) \<noteq> [] \<longrightarrow>
     item_current (hd (mavlink_mission_item_messages (assemble_mavlink_messages s))) = 1 \<and>
     (\<forall>m \<in> set (tl (mavlink_mission_item_messages (assemble_mavlink_messages s))).
         item_current m = 0) \<and>
     length (filter (\<lambda>m. item_current m = 1)
               (mavlink_mission_item_messages (assemble_mavlink_messages s))) = 1"
  using flags_ok_first [OF flags_ok_assemble_mavlink_messages] by blast

text \<open>
  C7 at a concrete input: an item with all five kinds of sub-item followed by a plain
  waypoint gives six wire items with the flags 1, 0, 0, 0, 0, 0.
\<close>

theorem first_wire_item_is_current_witness:
  "map item_current
     (mavlink_mission_item_messages
        (assemble_mavlink_messages
           (copy_mission_item_vector [example_full_item, waypoint 1 2 3 True]
              initial_MissionImpl))) = [1, 0, 0, 0, 0, 0] \<and>
   length (filter (\<lambda>m. item_current m = 1)
     (mavlink_mission_item_messages
        (assemble_mavlink_messages
           (copy_mission_item_vector [example_full_item, waypoint 1 2 3 True]
              initial_MissionImpl)))) = 1"
proof -
  let ?s = "copy_mission_item_vector [example_full_item, waypoint 1 2 3 True] initial_MissionImpl"
  have e: "map item_current (mavlink_mission_item_messages (assemble_mavlink_messages ?s))
             = [1, 0, 0, 0, 0, 0]"
    by (simp add: assemble_eval example_full_item_def initial_MissionImpl_def)
  then have "mavlink_mission_item_messages (assemble_mavlink_messages ?s) \<noteq> []" by auto
  with first_wire_item_is_current [of ?s] e show ?thesis by blast
qed

subsection \<open>The index map\<close>

lemma map_insert_keys: "set (map fst (map_insert (k, v) m)) = insert k (set (map fst m))"
  by (induction m) (force split: if_splits)+

lemma map_insert_sorted:
  "sorted_wrt (<) (map fst m) \<Longrightarrow> sorted_wrt (<) (map fst (map_insert (k, v) m))"
proof (induction m)
  case Nil
  then show ?case by simp
next
  case (Cons p m)
  obtain k' v' where p: "p = (k', v')" by (cases p)
  from Cons show ?case
    using map_insert_keys [of k v m] by (auto simp: p)
qed

lemma index_map_ok_insert:
  "index_map_ok m \<Longrightarrow> 0 \<le> k \<Longrightarrow> index_map_ok (map_insert (k, v) m)"
  using map_insert_keys [of k v m]
  by (auto simp: index_map_ok_def map_insert_sorted list_all_iff)

lemma index_map_ok_add_position:
  "index_map_ok (a_indices a) \<Longrightarrow> index_map_ok (a_indices (add_position i item a))"
  by (simp add: add_position_def Let_def index_map_ok_insert)

lemma index_map_ok_add_speed:
  "index_map_ok (a_indices a) \<Longrightarrow> index_map_ok (a_indices (add_speed i item a))"
  by (simp add: add_speed_def Let_def index_map_ok_insert)

lemma index_map_ok_add_gimbal:
  "index_map_ok (a_indices a) \<Longrightarrow> index_map_ok (a_indices (add_gimbal i item a))"
  by (simp add: add_gimbal_def Let_def index_map_ok_insert)

lemma index_map_ok_add_loiter:
  "index_map_ok (a_indices a) \<Longrightarrow> index_map_ok (a_indices (add_loiter i item a))"
  by (simp add: add_loiter_def Let_def index_map_ok_insert split: option.splits)

lemma index_map_ok_add_camera:
  "index_map_ok (a_indices a) \<Longrightarrow> index_map_ok (a_indices (add_camera i item a))"
  by (simp add: add_camera_def Let_def index_map_ok_insert split: prod.splits)

lemma index_map_ok_assemble_item:
  "index_map_ok (a_indices a) \<Longrightarrow> index_map_ok (a_indices (assemble_item i item a))"
  unfolding assemble_item_def
  by (intro index_map_ok_add_camera index_map_ok_add_loiter index_map_ok_add_gimbal
      index_map_ok_add_speed index_map_ok_add_position)

lemma index_map_ok_assemble_loop:
  "index_map_ok (a_indices a) \<Longrightarrow> index_map_ok (a_indices (assemble_loop i items a))"
  by (induction items arbitrary: i a) (simp_all add: index_map_ok_assemble_item)

lemma index_map_ok_assemble_mavlink_messages:
  "index_map_ok (mavlink_mission_item_to_mission_item_indices s) \<Longrightarrow>
   index_map_ok (mavlink_mission_item_to_mission_item_indices (assemble_mavlink_messages s))"
  by (simp add: assemble_mavlink_messages_def Let_def index_map_ok_assemble_loop)

lemma example_idle_activity: "activity example_idle = NONE"
  by (simp add: example_idle_def example_accepted_ack_def process_mission_ack_def
      upload_mission_async_def initial_MissionImpl_def Let_def)

lemma example_idle_indices:
  "mavlink_mission_item_to_mission_item_indices example_idle
     = [(0, 0), (1, 0), (2, 0), (3, 0), (4, 0), (5, 1)]"
  by (simp add: example_idle_def example_accepted_ack_def process_mission_ack_def
      upload_mission_async_def initial_MissionImpl_def example_full_item_def assemble_eval)

text \<open>
  On an engine whose index map is empty (a first upload) the translation of M user items
  into N wire items gives the map the keys 0 to N-1, with values that are non-decreasing
  and lie in 0 to M-1.
\<close>

lemma map_insert_append:
  "\<forall>k' \<in> set (map fst m). k' < k \<Longrightarrow> map_insert (k, v) m = m @ [(k, v)]"
  by (induction m) auto

lemma fresh_ok_emit:
  assumes "fresh_ok (Suc i) a"
  shows "fresh_ok (Suc i) (a\<lparr> a_indices := map_insert (int (length (a_messages a)), int i) (a_indices a),
                       a_messages := a_messages a @ [w] \<rparr>)"
proof -
  have k: "\<forall>k' \<in> set (map fst (a_indices a)). k' < int (length (a_messages a))"
    using assms by (auto simp: fresh_ok_def)
  have s: "\<forall>v \<in> set (map snd (a_indices a)). v \<le> int i"
    using assms by (auto simp: fresh_ok_def list_all_iff)
  show ?thesis
    using assms s unfolding map_insert_append [OF k]
    by (auto simp: fresh_ok_def sorted_append)
qed

lemma fresh_ok_emit_last:
  assumes "fresh_ok (Suc i) a"
  shows "fresh_ok (Suc i) (a\<lparr> a_last := l,
                       a_indices := map_insert (int (length (a_messages a)), int i) (a_indices a),
                       a_messages := a_messages a @ [w] \<rparr>)"
  using fresh_ok_emit [OF assms, of w] by (simp add: fresh_ok_def)

lemma fresh_ok_add_position: "fresh_ok (Suc i) a \<Longrightarrow> fresh_ok (Suc i) (add_position i item a)"
  by (simp add: add_position_def Let_def fresh_ok_emit_last)

lemma fresh_ok_add_speed: "fresh_ok (Suc i) a \<Longrightarrow> fresh_ok (Suc i) (add_speed i item a)"
  by (simp add: add_speed_def Let_def fresh_ok_emit)

lemma fresh_ok_add_gimbal: "fresh_ok (Suc i) a \<Longrightarrow> fresh_ok (Suc i) (add_gimbal i item a)"
  by (simp add: add_gimbal_def Let_def fresh_ok_emit)

lemma fresh_ok_add_loiter: "fresh_ok (Suc i) a \<Longrightarrow> fresh_ok (Suc i) (add_loiter i item a)"
  by (simp add: add_loiter_def Let_def fresh_ok_emit split: option.splits)

lemma fresh_ok_add_camera: "fresh_ok (Suc i) a \<Longrightarrow> fresh_ok (Suc i) (add_camera i item a)"
  by (simp add: add_camera_def Let_def fresh_ok_emit split: prod.splits)

lemma fresh_ok_mono: "fresh_ok i a \<Longrightarrow> fresh_ok (Suc i) a"
  by (auto simp: fresh_ok_def list_all_iff)

lemma fresh_ok_assemble_item: "fresh_ok i a \<Longrightarrow> fresh_ok (Suc i) (assemble_item i item a)"
  unfolding assemble_item_def
  by (intro fresh_ok_add_camera fresh_ok_add_loiter fresh_ok_add_gimbal fresh_ok_add_speed
      fresh_ok_add_position fresh_ok_mono)

lemma fresh_ok_assemble_loop:
  "fresh_ok i a \<Longrightarrow> fresh_ok (i + length items) (assemble_loop i items a)"
proof (induction items arbitrary: i a)
  case Nil
  then show ?case by simp
next
  case (Cons item items)
  from Cons.IH [OF fresh_ok_assemble_item [OF Cons.prems, of item]]
  show ?case by simp
qed

lemma index_map_of_first_upload:
  assumes "mavlink_mission_item_to_mission_item_indices s = []"
  shows "map fst (mavlink_mission_item_to_mission_item_indices (assemble_mavlink_messages s))
           = map int [0..<length (mavlink_mission_item_messages (assemble_mavlink_messages s))] \<and>
         sorted (map snd (mavlink_mission_item_to_mission_item_indices (assemble_mavlink_messages s))) \<and>
         list_all (\<lambda>v. 0 \<le> v \<and> v < int (length (mission_items s)))
           (map snd (mavlink_mission_item_to_mission_item_indices (assemble_mavlink_messages s)))"
proof -
  have "fresh_ok 0 \<lparr> a_messages = [], a_indices = [], a_last = None \<rparr>"
    by (simp add: fresh_ok_def)
  from fresh_ok_assemble_loop [OF this, of "mission_items s"] assms show ?thesis
    by (simp add: assemble_mavlink_messages_def Let_def fresh_ok_def)
qed

text \<open>
  C2 on the code. The translation clears the message vector but not the index map, and
  \<^verbatim>\<open>std::map::insert\<close> keeps an entry that is already there. After the upload of two
  waypoints (index map 0 to 0, 1 to 1) has been accepted, a second upload of one user item
  with a position and a speed (M = 1, N = 2) leaves the map at 0 to 0, 1 to 1: wire item 1
  is mapped to user index 1, which is not below M. A second upload of one plain waypoint
  (N = 1) leaves the map with two entries.
\<close>

theorem index_map_stale_after_second_upload:
  "mavlink_mission_item_to_mission_item_indices example_uploading = [(0, 0), (1, 1)] \<and>
   length (mission_items (example_reupload [(waypoint 1 2 3 True)\<lparr> speed_m_s := Finite 5 \<rparr>])) = 1 \<and>
   length (mavlink_mission_item_messages
             (example_reupload [(waypoint 1 2 3 True)\<lparr> speed_m_s := Finite 5 \<rparr>])) = 2 \<and>
   mavlink_mission_item_to_mission_item_indices
     (example_reupload [(waypoint 1 2 3 True)\<lparr> speed_m_s := Finite 5 \<rparr>]) = [(0, 0), (1, 1)] \<and>
   length (mavlink_mission_item_messages (example_reupload [waypoint 1 2 3 True])) = 1 \<and>
   mavlink_mission_item_to_mission_item_indices (example_reupload [waypoint 1 2 3 True])
     = [(0, 0), (1, 1)]"
  by (simp add: example_reupload_def example_accepted_ack_def process_mission_ack_def
      example_uploading_def upload_mission_async_def assemble_eval initial_MissionImpl_def)

section \<open>Setting the current mission item\<close>

lemma find_mavlink_index_none:
  "current \<notin> snd ` set m \<Longrightarrow> find_mavlink_index m current = - 1"
  by (induction m) auto

lemma find_mavlink_index_mem':
  "(k, current) \<in> set m \<Longrightarrow> (find_mavlink_index m current, current) \<in> set m"
  by (induction m) (auto split: if_splits)

lemma find_mavlink_index_mem:
  "current \<in> snd ` set m \<Longrightarrow> (find_mavlink_index m current, current) \<in> set m"
  using find_mavlink_index_mem' by fastforce

lemma find_mavlink_index_least:
  "sorted_wrt (<) (map fst m) \<Longrightarrow> (k, current) \<in> set m \<Longrightarrow> find_mavlink_index m current \<le> k"
  by (induction m) (auto simp: rev_image_eqI)

lemma index_map_ok_nonneg:
  "index_map_ok m \<Longrightarrow> (k, v) \<in> set m \<Longrightarrow> 0 \<le> k"
  by (auto simp: index_map_ok_def list_all_iff)

lemma uint_narrow_16:
  "0 \<le> k \<Longrightarrow> k < 65536 \<Longrightarrow> uint (word_of_int k :: 16 word) = k"
  by (simp add: unsigned_of_int take_bit_int_eq_self)

text \<open>
  C9. \<^verbatim>\<open>set_current_mission_item_async\<close>, called on an idle engine whose index map has
  the shape the translation gives it: if some entry of the index map maps to the given
  user index, the engine picks the smallest wire sequence number that maps to it and
  hands MISSION_SET_CURRENT for that sequence number to \<^verbatim>\<open>send_message\<close> (becoming
  SET_CURRENT when the send succeeds, reporting ERROR when it fails); if no entry maps to
  the user index, it reports INVALID_ARGUMENT and sends nothing, and the state is
  unchanged. The message carries the sequence number as a \<^verbatim>\<open>uint16_t\<close>, which is the
  selected number itself whenever that is below 65536.
\<close>

theorem set_current_selects_first:
  assumes "activity s = NONE"
    and "index_map_ok (mavlink_mission_item_to_mission_item_indices s)"
  shows "(current \<in> snd ` set (mavlink_mission_item_to_mission_item_indices s) \<longrightarrow>
           (let k = find_mavlink_index (mavlink_mission_item_to_mission_item_indices s) current
            in (k, current) \<in> set (mavlink_mission_item_to_mission_item_indices s) \<and>
               (\<forall>(k', v) \<in> set (mavlink_mission_item_to_mission_item_indices s).
                   v = current \<longrightarrow> k \<le> k') \<and>
               (k < 65536 \<longrightarrow> uint (word_of_int k :: 16 word) = k) \<and>
               set_current_mission_item_async current callback send_ok s =
                 (if send_ok then
                    (s\<lparr> activity := SET_CURRENT, result_callback := callback \<rparr>,
                     [Send (MISSION_SET_CURRENT (word_of_int k))])
                  else (s, Send (MISSION_SET_CURRENT (word_of_int k))
                             # report_mission_result callback ERROR)))) \<and>
         (current \<notin> snd ` set (mavlink_mission_item_to_mission_item_indices s) \<longrightarrow>
            set_current_mission_item_async current callback send_ok s =
              (s, report_mission_result callback INVALID_ARGUMENT))"
proof -
  let ?m = "mavlink_mission_item_to_mission_item_indices s"
  have srt: "sorted_wrt (<) (map fst ?m)" using assms(2) by (simp add: index_map_ok_def)
  show ?thesis
  proof (cases "current \<in> snd ` set ?m")
    case True
    have mem: "(find_mavlink_index ?m current, current) \<in> set ?m"
      by (rule find_mavlink_index_mem [OF True])
    then have nn: "\<not> find_mavlink_index ?m current < 0"
      using index_map_ok_nonneg [OF assms(2)] by fastforce
    have least: "\<forall>(k', v) \<in> set ?m. v = current \<longrightarrow> find_mavlink_index ?m current \<le> k'"
      using find_mavlink_index_least [OF srt] by auto
    have narrow: "find_mavlink_index ?m current < 65536 \<longrightarrow>
        uint (word_of_int (find_mavlink_index ?m current) :: 16 word)
          = find_mavlink_index ?m current"
      using nn by (simp add: uint_narrow_16)
    show ?thesis
      using True mem nn least narrow assms(1)
      by (simp add: set_current_mission_item_async_def Let_def)
  next
    case False
    then show ?thesis
      using assms(1) find_mavlink_index_none [OF False]
      by (simp add: set_current_mission_item_async_def Let_def)
  qed
qed

text \<open>
  C9 at a concrete input: with wire items 0 to 4 mapped to user item 0 and wire item 5 to
  user item 1, user index 1 selects wire item 5, user index 0 selects wire item 0, and
  user index 7 is refused with INVALID_ARGUMENT without a message.
\<close>

theorem set_current_selects_first_witness:
  "set_current_mission_item_async 1 (Some 9) True example_idle
     = (example_idle\<lparr> activity := SET_CURRENT, result_callback := Some 9 \<rparr>,
        [Send (MISSION_SET_CURRENT 5)]) \<and>
   set_current_mission_item_async 0 (Some 9) True example_idle
     = (example_idle\<lparr> activity := SET_CURRENT, result_callback := Some 9 \<rparr>,
        [Send (MISSION_SET_CURRENT 0)]) \<and>
   set_current_mission_item_async 7 (Some 9) True example_idle
     = (example_idle, [ResultCallback 9 INVALID_ARGUMENT])"
proof -
  have ok: "index_map_ok (mavlink_mission_item_to_mission_item_indices example_idle)"
    by (simp add: example_idle_indices index_map_ok_def)
  note t = set_current_selects_first [OF example_idle_activity ok, of _ "Some 9" True]
  show ?thesis
    using t [of 1] t [of 0] t [of 7]
    by (simp add: example_idle_indices report_mission_result_def)
qed

section \<open>Download: timeout and empty mission\<close>

lemmas download_eval =
  example_downloading_def download_mission_async_def process_mission_count_def
  process_timeout_def download_next_mission_item_def report_mission_result_def Let_def

text \<open>
  C4 on the code, with \<^verbatim>\<open>MAX_RETRIES\<close> = 3. A download with callback 8 is under way. The
  timeout fires four times and each time the engine re-arms the short timeout and re-sends
  the request: also the fourth time, when three retries have already occurred. The fifth
  firing ends the download; nothing is delivered to the download callback 8: on a fresh
  engine no callback is called at all, and on an engine that has uploaded before, the
  callback of that upload (callback 0) gets TIMEOUT.
\<close>

theorem download_timeout_retries_and_callback:
  "process_timeouts 3 4 (example_downloading initial_MissionImpl)
     = ((example_downloading initial_MissionImpl)\<lparr> retries := 4 \<rparr>,
        [RegisterTimeout RETRY_TIMEOUT_S, Send (MISSION_REQUEST_INT 0),
         RegisterTimeout RETRY_TIMEOUT_S, Send (MISSION_REQUEST_INT 0),
         RegisterTimeout RETRY_TIMEOUT_S, Send (MISSION_REQUEST_INT 0),
         RegisterTimeout RETRY_TIMEOUT_S, Send (MISSION_REQUEST_INT 0)]) \<and>
   activity (example_downloading initial_MissionImpl) = GET_MISSION \<and>
   mission_items_and_result_callback (example_downloading initial_MissionImpl) = Some 8 \<and>
   process_timeout 3 ((example_downloading initial_MissionImpl)\<lparr> retries := 4 \<rparr>)
     = ((example_downloading initial_MissionImpl)\<lparr> activity := NONE, retries := 0 \<rparr>, []) \<and>
   snd (process_timeout 3 ((example_downloading example_idle)\<lparr> retries := 4 \<rparr>))
     = [ResultCallback 0 TIMEOUT]"
  by (simp add: numeral_nat download_eval initial_MissionImpl_def example_idle_activity
      example_idle_def example_accepted_ack_def process_mission_ack_def
      upload_mission_async_def)

text \<open>
  C5 on the code. A download with callback 8 is under way on a fresh engine and nothing
  has been collected. \<^verbatim>\<open>assemble_mission_items\<close> on the empty collection returns without
  calling the callback and without leaving GET_MISSION; and when the vehicle announces an
  empty mission (MISSION_COUNT 0) the engine requests item 0 and stays in GET_MISSION,
  until (with \<^verbatim>\<open>MAX_RETRIES\<close> = 3) the fifth timeout in a row ends the download without
  any callback being called.
\<close>

theorem empty_download_reports_nothing:
  "activity (fst (download_mission_async (Some 8) True initial_MissionImpl)) = GET_MISSION \<and>
   mavlink_mission_items_downloaded (fst (download_mission_async (Some 8) True initial_MissionImpl))
     = [] \<and>
   assemble_mission_items (fst (download_mission_async (Some 8) True initial_MissionImpl))
     = (fst (download_mission_async (Some 8) True initial_MissionImpl), []) \<and>
   process_mission_count 0 (fst (download_mission_async (Some 8) True initial_MissionImpl))
     = ((fst (download_mission_async (Some 8) True initial_MissionImpl))
          \<lparr> num_mission_items_to_download := 0, next_mission_item_to_download := 0 \<rparr>,
        [UnregisterTimeout, RegisterTimeout RETRY_TIMEOUT_S, Send (MISSION_REQUEST_INT 0)]) \<and>
   process_timeouts 3 5
       (fst (process_mission_count 0
               (fst (download_mission_async (Some 8) True initial_MissionImpl))))
     = ((fst (download_mission_async (Some 8) True initial_MissionImpl))
          \<lparr> activity := NONE, num_mission_items_to_download := 0,
            next_mission_item_to_download := 0 \<rparr>,
        [RegisterTimeout RETRY_TIMEOUT_S, Send (MISSION_REQUEST_INT 0),
         RegisterTimeout RETRY_TIMEOUT_S, Send (MISSION_REQUEST_INT 0),
         RegisterTimeout RETRY_TIMEOUT_S, Send (MISSION_REQUEST_INT 0),
         RegisterTimeout RETRY_TIMEOUT_S, Send (MISSION_REQUEST_INT 0)])"
  by (simp add: numeral_nat download_eval initial_MissionImpl_def assemble_mission_items_def)

section \<open>Round trip of plain waypoints\<close>

lemma float_abs_le_finite: "float_abs_le f b \<Longrightarrow> isfinite f"
  by (cases f) simp_all

lemma assemble_item_plain:
  assumes "is_plain_waypoint item"
  shows "\<exists>w. a_messages (assemble_item i item a) = a_messages a @ [w] \<and> encodes item w"
proof -
  have "is_position_finite item"
    using assms
    by (auto simp: is_plain_waypoint_def is_position_finite_def dest: float_abs_le_finite)
  then show ?thesis
  using assms
  by (simp add: is_plain_waypoint_def assemble_item_def add_position_def add_speed_def
      add_gimbal_def add_loiter_def add_camera_def Let_def encodes_def
      mavlink_msg_mission_item_int_pack_def get_mavlink_cmd_def get_mavlink_frame_def)
qed

lemma assemble_loop_plain:
  assumes "list_all is_plain_waypoint U"
  shows "\<exists>ws. a_messages (assemble_loop i U a) = a_messages a @ ws \<and> list_all2 encodes U ws"
  using assms
proof (induction U arbitrary: i a)
  case Nil
  then show ?case by simp
next
  case (Cons item U)
  from Cons.prems have p: "is_plain_waypoint item" and r: "list_all is_plain_waypoint U" by simp_all
  from assemble_item_plain [OF p, of i a] obtain w where
    w: "a_messages (assemble_item i item a) = a_messages a @ [w]" "encodes item w" by blast
  from Cons.IH [OF r, of "Suc i" "assemble_item i item a"] obtain ws where
    ws: "a_messages (assemble_loop (Suc i) U (assemble_item i item a))
           = a_messages (assemble_item i item a) @ ws" "list_all2 encodes U ws" by blast
  have "a_messages (assemble_loop i (item # U) a) = a_messages a @ (w # ws)"
    using w ws by simp
  moreover have "list_all2 encodes (item # U) (w # ws)" using w ws by simp
  ultimately show ?case by blast
qed

lemma decode_encoded:
  assumes "encodes item w"
  shows "decode_waypoint w = as_transmitted item"
  using assms
  by (simp add: encodes_def decode_waypoint_def as_transmitted_def get_mavlink_z_def
      get_mavlink_param1_def)

lemma map_decode_encoded: "list_all2 encodes U ws \<Longrightarrow> map decode_waypoint ws = map as_transmitted U"
  by (induction U ws rule: list_all2_induct) (simp_all add: decode_encoded)

lemma loop_waypoints:
  assumes "\<forall>w \<in> set ws. item_command w = MAV_CMD_NAV_WAYPOINT \<and>
                         item_frame w = MAV_FRAME_GLOBAL_RELATIVE_ALT_INT"
  shows "\<exists>out n. assemble_mission_items_loop ws items new True res = (out, n, res) \<and>
                 out @ [n] = items @ new # map decode_waypoint ws"
  using assms
proof (induction ws arbitrary: items new)
  case Nil
  then show ?case by simp
next
  case (Cons w ws)
  from Cons.prems have r: "\<forall>w \<in> set ws. item_command w = MAV_CMD_NAV_WAYPOINT \<and>
                         item_frame w = MAV_FRAME_GLOBAL_RELATIVE_ALT_INT" by simp
  from Cons.IH [OF r, of "items @ [new]" "decode_waypoint w"] Cons.prems
  show ?case by (simp add: decode_waypoint_def)
qed

lemma loop_waypoints_first:
  assumes "\<forall>w \<in> set ws. item_command w = MAV_CMD_NAV_WAYPOINT \<and>
                         item_frame w = MAV_FRAME_GLOBAL_RELATIVE_ALT_INT"
    and "ws \<noteq> []"
  shows "\<exists>out n. assemble_mission_items_loop ws [] new_MissionItem False SUCCESS
                   = (out, n, SUCCESS) \<and>
                 out @ [n] = map decode_waypoint ws"
proof -
  obtain w ws' where ws: "ws = w # ws'" using assms(2) by (cases ws) auto
  from assms(1) ws have r: "\<forall>w \<in> set ws'. item_command w = MAV_CMD_NAV_WAYPOINT \<and>
                         item_frame w = MAV_FRAME_GLOBAL_RELATIVE_ALT_INT" by simp
  from loop_waypoints [OF r, of "[]" "decode_waypoint w" SUCCESS] assms(1) ws
  show ?thesis by (simp add: decode_waypoint_def)
qed

lemma assemble_mission_items_waypoints:
  assumes "\<forall>w \<in> set (mavlink_mission_items_downloaded s).
             item_command w = MAV_CMD_NAV_WAYPOINT \<and>
             item_frame w = MAV_FRAME_GLOBAL_RELATIVE_ALT_INT"
    and "mavlink_mission_items_downloaded s \<noteq> []"
    and "mission_items_and_result_callback s = Some c"
  shows "assemble_mission_items s =
           (s\<lparr> mission_items := map decode_waypoint (mavlink_mission_items_downloaded s),
               activity := NONE \<rparr>,
            [ItemsAndResultCallback c SUCCESS
               (map decode_waypoint (mavlink_mission_items_downloaded s))])"
proof -
  from loop_waypoints_first [OF assms(1,2)] obtain out n where
    l: "assemble_mission_items_loop (mavlink_mission_items_downloaded s) [] new_MissionItem
          False SUCCESS = (out, n, SUCCESS)"
       "out @ [n] = map decode_waypoint (mavlink_mission_items_downloaded s)" by blast
  have h: "item_command (mavlink_mission_items_downloaded s ! 0) = MAV_CMD_NAV_WAYPOINT"
    using assms(1,2) by (cases "mavlink_mission_items_downloaded s") auto
  show ?thesis
    using assms(2,3) l h
    by (simp add: assemble_mission_items_def Let_def report_mission_items_and_result_def)
qed


lemma encodes_wire:
  "list_all2 encodes U ws \<Longrightarrow>
   \<forall>w \<in> set ws. item_command w = MAV_CMD_NAV_WAYPOINT \<and>
                  item_frame w = MAV_FRAME_GLOBAL_RELATIVE_ALT_INT"
  by (induction U ws rule: list_all2_induct) (simp_all add: encodes_def)

subsection \<open>The error of the two position conversions\<close>

lemma round_double_error:
  assumes "\<bar>q\<bar> < 2 powi b" and "- 1021 \<le> b" and "b \<le> 1023"
  shows "\<exists>r. round_double q = Finite r \<and> \<bar>r - q\<bar> \<le> 2 powi (b - 54)"
proof (cases "q = 0")
  case True
  then show ?thesis by (simp add: round_double_def ieee_round_def)
next
  case False
  then have aq: "0 < \<bar>q\<bar>" by simp
  have fl: "floor_log2 \<bar>q\<bar> < b" by (rule floor_log2_less [OF aq assms(1)])
  then have m: "max (floor_log2 \<bar>q\<bar>) (- 1022) \<le> b - 1" using assms(2) by simp
  then have "max (floor_log2 \<bar>q\<bar>) (- 1022) < 1023" using assms(3) by simp
  from ieee_round_error [OF False this, of 53] obtain r where
    r: "round_double q = Finite r"
       "\<bar>r - q\<bar> \<le> 2 powi (max (floor_log2 \<bar>q\<bar>) (- 1022) - int 53)"
    by (auto simp: round_double_def)
  have "(2::rat) powi (max (floor_log2 \<bar>q\<bar>) (- 1022) - int 53) \<le> 2 powi (b - 54)"
    using m by (intro power_int_increasing) auto
  with r show ?thesis by auto
qed

lemma round_half_away_error: "\<bar>of_int (round_half_away y) - y\<bar> \<le> 1 / 2"
proof (cases "0 \<le> y")
  case True
  have "of_int \<lfloor>y + 1 / 2\<rfloor> \<le> y + 1 / 2 \<and> y + 1 / 2 < of_int \<lfloor>y + 1 / 2\<rfloor> + 1"
    by linarith
  then have "\<bar>of_int \<lfloor>y + 1 / 2\<rfloor> - y\<bar> \<le> 1 / 2" by linarith
  then show ?thesis using True by (simp only: round_half_away_def if_True)
next
  case False
  have "of_int \<lfloor>- y + 1 / 2\<rfloor> \<le> - y + 1 / 2 \<and> - y + 1 / 2 < of_int \<lfloor>- y + 1 / 2\<rfloor> + 1"
    by linarith
  then have "\<bar>of_int (- \<lfloor>- y + 1 / 2\<rfloor>) - y\<bar> \<le> 1 / 2" by (simp only: of_int_minus) linarith
  then show ?thesis using False by (simp only: round_half_away_def if_False)
qed

lemma sint_word_of_int_32:
  assumes "\<bar>x\<bar> < 2147483648"
  shows "sint (word_of_int x :: 32 word) = x"
  using assms by (simp add: signed_of_int signed_take_bit_int_eq_self)

lemma degrees_to_int32_bound:
  assumes "\<bar>v\<bar> \<le> 180"
  shows "\<exists>x. degrees_to_int32 (Finite v) = word_of_int x \<and>
             \<bar>of_int x - v * 10000000\<bar> \<le> 1 / 2 + 1 / 8388608 \<and> \<bar>x\<bar> \<le> 1800000001"
proof -
  have "\<bar>v * 10000000\<bar> \<le> 1800000000" using assms by (simp add: abs_mult)
  then have "\<bar>v * 10000000\<bar> < 2 powi 31" by simp
  from round_double_error [OF this] obtain y where
    y: "round_double (v * 10000000) = Finite y" "\<bar>y - v * 10000000\<bar> \<le> 2 powi (31 - 54)"
    by auto
  define x where "x = round_half_away y"
  have e: "\<bar>of_int x - y\<bar> \<le> 1 / 2" unfolding x_def by (rule round_half_away_error)
  have p: "(2::rat) powi (31 - 54) = 1 / 8388608" by (simp add: power_int_minus_divide)
  have b1: "\<bar>of_int x - v * 10000000\<bar> \<le> 1 / 2 + 1 / 8388608"
    using e y(2) unfolding p by linarith
  have "\<bar>(of_int x :: rat)\<bar> \<le> 1800000001"
    using b1 \<open>\<bar>v * 10000000\<bar> \<le> 1800000000\<close> by linarith
  then have "(of_int \<bar>x\<bar> :: rat) \<le> of_int 1800000001" by simp
  then have b2: "\<bar>x\<bar> \<le> 1800000001" by (simp only: of_int_le_iff)
  have "degrees_to_int32 (Finite v) = word_of_int x"
    by (simp add: degrees_to_int32_def y(1) x_def)
  with b1 b2 show ?thesis by blast
qed

lemma int32_to_degrees_bound:
  assumes "\<bar>x\<bar> \<le> 1800000001"
  shows "\<exists>r. int32_to_degrees (word_of_int x) = Finite r \<and>
             \<bar>r - of_int x / 10000000\<bar> \<le> 1 / 17592186044416"
proof -
  have s: "sint (word_of_int x :: 32 word) = x" using assms by (intro sint_word_of_int_32) simp
  have ax: "\<bar>(of_int x :: rat)\<bar> \<le> 1800000001"
  proof -
    have "(of_int \<bar>x\<bar> :: rat) \<le> of_int 1800000001" using assms by (simp only: of_int_le_iff)
    then show ?thesis by simp
  qed
  have "\<bar>of_int x * double_1e_minus_7\<bar> = \<bar>of_int x\<bar> * double_1e_minus_7"
    by (simp add: abs_mult double_1e_minus_7_def)
  also have "\<dots> \<le> 1800000001 * double_1e_minus_7"
    using ax by (intro mult_right_mono) (auto simp: double_1e_minus_7_def)
  also have "\<dots> < 2 powi 8" by (simp add: double_1e_minus_7_def)
  finally have "\<bar>of_int x * double_1e_minus_7\<bar> < 2 powi 8" .
  from round_double_error [OF this] obtain r where
    r: "round_double (of_int x * double_1e_minus_7) = Finite r"
       "\<bar>r - of_int x * double_1e_minus_7\<bar> \<le> 2 powi (8 - 54)"
    by auto
  have p: "(2::rat) powi (8 - 54) = 1 / 70368744177664" by (simp add: power_int_minus_divide)
  have "\<bar>of_int x * double_1e_minus_7 - of_int x / 10000000\<bar>
          = \<bar>of_int x * (double_1e_minus_7 - 1 / 10000000)\<bar>"
    by (simp add: right_diff_distrib)
  also have "\<dots> = \<bar>of_int x\<bar> * \<bar>double_1e_minus_7 - 1 / 10000000\<bar>"
    by (simp only: abs_mult)
  also have "\<dots> \<le> 1800000001 * \<bar>double_1e_minus_7 - 1 / 10000000\<bar>"
    using ax by (intro mult_right_mono) auto
  also have "\<dots> \<le> 1 / 70368744177664" by (simp add: double_1e_minus_7_def)
  finally have c: "\<bar>of_int x * double_1e_minus_7 - of_int x / 10000000\<bar> \<le> 1 / 70368744177664" .
  have "\<bar>r - of_int x / 10000000\<bar> \<le> 1 / 17592186044416"
    using r(2) c unfolding p by linarith
  moreover have "int32_to_degrees (word_of_int x) = Finite r"
    by (simp add: int32_to_degrees_def s r(1))
  ultimately show ?thesis by blast
qed

lemma position_round_trip_bound:
  assumes "\<bar>v\<bar> \<le> 180"
  shows "float_within (1 / 10000000) (Finite v) (int32_to_degrees (degrees_to_int32 (Finite v)))"
proof -
  from degrees_to_int32_bound [OF assms] obtain x where
    x: "degrees_to_int32 (Finite v) = word_of_int x"
       "\<bar>of_int x - v * 10000000\<bar> \<le> 1 / 2 + 1 / 8388608" "\<bar>x\<bar> \<le> 1800000001"
    by blast
  from int32_to_degrees_bound [OF x(3)] obtain r where
    r: "int32_to_degrees (word_of_int x) = Finite r"
       "\<bar>r - of_int x / 10000000\<bar> \<le> 1 / 17592186044416"
    by blast
  have "of_int x / 10000000 - v = (of_int x - v * 10000000) / 10000000"
    by (simp add: diff_divide_distrib)
  then have "\<bar>of_int x / 10000000 - v\<bar> = \<bar>of_int x - v * 10000000\<bar> / 10000000"
    by (simp only: abs_divide)
  also have "\<dots> \<le> (1 / 2 + 1 / 8388608) / 10000000"
    using x(2) by (intro divide_right_mono) auto
  finally have a: "\<bar>of_int x / 10000000 - v\<bar> \<le> (1 / 2 + 1 / 8388608) / 10000000" .
  have n: "(1 / 2 + 1 / 8388608) / 10000000 + 1 / 17592186044416 \<le> (1 / 10000000 :: rat)"
    by simp
  have "\<bar>r - v\<bar> \<le> \<bar>r - of_int x / 10000000\<bar> + \<bar>of_int x / 10000000 - v\<bar>" by linarith
  also have "\<dots> \<le> 1 / 17592186044416 + (1 / 2 + 1 / 8388608) / 10000000"
    using a r(2) by (rule_tac add_mono) 
  also have "\<dots> \<le> 1 / 10000000" using n by simp
  finally have "\<bar>r - v\<bar> \<le> 1 / 10000000" .
  then show ?thesis by (simp add: x(1) r(1))
qed

lemma close_as_transmitted:
  assumes "is_plain_waypoint item"
  shows "close_waypoint item (as_transmitted item)"
proof -
  from assms obtain la lo where
    l: "latitude_deg item = Finite la" "\<bar>la\<bar> \<le> 90"
       "longitude_deg item = Finite lo" "\<bar>lo\<bar> \<le> 180"
    by (cases "latitude_deg item"; cases "longitude_deg item")
       (auto simp: is_plain_waypoint_def)
  have "\<bar>la\<bar> \<le> 180" using l(2) by simp
  from position_round_trip_bound [OF this] position_round_trip_bound [OF l(4)]
  show ?thesis
    by (simp add: close_waypoint_def as_transmitted_def get_mavlink_x_def get_mavlink_y_def l)
qed

lemma round_trip_transmitted:
  assumes "list_all is_plain_waypoint U" and "U \<noteq> []"
  shows "round_trip U =
          (initial_MissionImpl\<lparr> activity := NONE,
             mavlink_mission_items_downloaded :=
               mavlink_mission_item_messages
                 (assemble_mavlink_messages (copy_mission_item_vector U initial_MissionImpl)),
             mission_items_and_result_callback := Some 8,
             mission_items := map as_transmitted U \<rparr>,
           [ItemsAndResultCallback 8 SUCCESS (map as_transmitted U)])"
proof -
  let ?s0 = "assemble_mavlink_messages (copy_mission_item_vector U initial_MissionImpl)"
  from assemble_loop_plain [OF assms(1), of 0
         "\<lparr> a_messages = [], a_indices = [], a_last = None \<rparr>"]
  obtain ws where ws: "mavlink_mission_item_messages ?s0 = ws" "list_all2 encodes U ws"
    by (auto simp: assemble_mavlink_messages_def copy_mission_item_vector_def
        initial_MissionImpl_def Let_def)
  have ne: "ws \<noteq> []" using ws(2) assms(2) by auto
  let ?s = "initial_MissionImpl\<lparr> activity := GET_MISSION,
                                   mavlink_mission_items_downloaded := ws,
                                   mission_items_and_result_callback := Some 8 \<rparr>"
  have r: "round_trip U = assemble_mission_items ?s"
    using ws(1) by (simp add: round_trip_def Let_def)
  have "assemble_mission_items ?s =
          (?s\<lparr> mission_items := map decode_waypoint ws, activity := NONE \<rparr>,
           [ItemsAndResultCallback 8 SUCCESS (map decode_waypoint ws)])"
    using assemble_mission_items_waypoints [of ?s 8] encodes_wire [OF ws(2)] ne by simp
  then show ?thesis
    using r map_decode_encoded [OF ws(2)] ws(1) by simp
qed

text \<open>
  C3, as the code has it. For every non-empty list of plain waypoints with valid
  positions (latitude within 90 degrees, longitude within 180 degrees), translating the
  list to wire items and the wire items back reports SUCCESS with a list of the same
  length and order; each item has the relative altitude and the fly-through flag of its
  original, and a latitude and a longitude within 1e-7 degrees of the original's. The
  position itself is not preserved: it passes through an \<^verbatim>\<open>int32_t\<close> in units of 1e-7
  degrees and two rounded \<^verbatim>\<open>double\<close> products. (For the empty list the translation back
  returns without reporting.)
\<close>

theorem waypoint_round_trip:
  assumes "list_all is_plain_waypoint U" and "U \<noteq> []"
  shows "\<exists>U'. snd (round_trip U) = [ItemsAndResultCallback 8 SUCCESS U'] \<and>
              mission_items (fst (round_trip U)) = U' \<and>
              activity (fst (round_trip U)) = NONE \<and>
              length U' = length U \<and>
              list_all2 close_waypoint U U'"
proof -
  have "list_all2 close_waypoint U (map as_transmitted U)"
    using assms(1)
    by (simp add: list_all2_map2 list_all2_same list_all_iff close_as_transmitted)
  then show ?thesis
    unfolding round_trip_transmitted [OF assms] by simp
qed

subsection \<open>The second waypoint of the specification's first scenario\<close>

lemma example_latitude_encoded:
  "degrees_to_int32 (Finite (6670675473065837 / 140737488355328)) = 473980000"
  by code_simp

lemma example_latitude_decoded:
  "int32_to_degrees 473980000 = Finite (1667668868266459 / 35184372088832)"
  by code_simp

lemma example_longitude_encoded:
  "degrees_to_int32 (Finite (1202742575484633 / 140737488355328)) = 85460000"
  by code_simp

lemma example_longitude_decoded:
  "int32_to_degrees 85460000 = Finite (1202742575484633 / 140737488355328)"
  by code_simp

lemma example_waypoint_plain:
  "list_all is_plain_waypoint
     [waypoint (6670675473065837 / 140737488355328) (1202742575484633 / 140737488355328) 10 True]"
  by (simp add: is_plain_waypoint_def waypoint_def new_MissionItem_def)

text \<open>
  C3 at a concrete input: the waypoint at the \<^verbatim>\<open>double\<close>s nearest to 47.398 and 8.546
  degrees comes back as one waypoint within 1e-7 degrees of it.
\<close>

theorem waypoint_round_trip_witness:
  "\<exists>U'. snd (round_trip [waypoint (6670675473065837 / 140737488355328)
                            (1202742575484633 / 140737488355328) 10 True])
            = [ItemsAndResultCallback 8 SUCCESS U'] \<and>
         length U' = 1 \<and>
         list_all2 close_waypoint
           [waypoint (6670675473065837 / 140737488355328)
              (1202742575484633 / 140737488355328) 10 True] U'"
  using waypoint_round_trip [OF example_waypoint_plain] by auto

text \<open>
  C3 as stated fails: the waypoint at the \<^verbatim>\<open>double\<close>s nearest to 47.398 and 8.546 degrees
  (latitude 6670675473065837 / 2^47) is sent with the wire latitude 473980000 and comes
  back at latitude 1667668868266459 / 2^45, the next \<^verbatim>\<open>double\<close> below (printed
  47.397999999999996).
\<close>

theorem waypoint_round_trip_loses_position:
  "list_all is_plain_waypoint
     [waypoint (6670675473065837 / 140737488355328) (1202742575484633 / 140737488355328) 10 True] \<and>
   snd (round_trip [waypoint (6670675473065837 / 140737488355328)
                      (1202742575484633 / 140737488355328) 10 True])
     = [ItemsAndResultCallback 8 SUCCESS
          [waypoint (1667668868266459 / 35184372088832)
             (1202742575484633 / 140737488355328) 10 True]] \<and>
   \<not> list_all2 same_waypoint
         [waypoint (6670675473065837 / 140737488355328)
            (1202742575484633 / 140737488355328) 10 True]
         [waypoint (1667668868266459 / 35184372088832)
            (1202742575484633 / 140737488355328) 10 True]"
proof -
  have t: "as_transmitted (waypoint (6670675473065837 / 140737488355328)
                             (1202742575484633 / 140737488355328) 10 True)
             = waypoint (1667668868266459 / 35184372088832)
                 (1202742575484633 / 140737488355328) 10 True"
    by (simp add: as_transmitted_def waypoint_def new_MissionItem_def get_mavlink_x_def
        get_mavlink_y_def example_latitude_encoded example_latitude_decoded
        example_longitude_encoded example_longitude_decoded)
  have d: "\<not> list_all2 same_waypoint
         [waypoint (6670675473065837 / 140737488355328)
            (1202742575484633 / 140737488355328) 10 True]
         [waypoint (1667668868266459 / 35184372088832)
            (1202742575484633 / 140737488355328) 10 True]"
    by (simp add: same_waypoint_def waypoint_def new_MissionItem_def)
  show ?thesis
    using example_waypoint_plain d
    unfolding round_trip_transmitted [OF example_waypoint_plain, simplified] 
    by (simp add: t)
qed

end
